theory Spec2Isabelle
  imports Complex_Main
begin

section \<open>Identities, roles and the profile store\<close>

text \<open>
  Identifiers are uuids that the client splices into strings
  (\<^verbatim>\<open>`user_id=eq.${user.id}`\<close>), so they are strings here.
  The table \<^verbatim>\<open>user_profiles\<close> has the primary key \<^verbatim>\<open>id\<close>, the text
  \<^verbatim>\<open>nama\<close> and \<^verbatim>\<open>role text CHECK (role IN ('admin', 'user'))\<close>; it is a
  partial map from the key to the other columns (the two timestamps are left out).
\<close>

type_synonym uuid = string

datatype role = Admin | User

record user_profile =
  nama :: string
  role :: role

type_synonym profiles = "uuid \<rightharpoonup> user_profile"

section \<open>Row-level security policies of the migrations\<close>

text \<open>
  The tables of the schema, their uuid columns (the key \<^verbatim>\<open>id\<close>, the columns that
  the policy expressions compare with \<^verbatim>\<open>auth.uid()\<close>, and the two references from
  a task to its project), and the policy expressions themselves. A row, as far as a
  policy or a foreign key can see it, gives each of these columns a uuid or NULL.
\<close>

datatype table_name =
    UserProfiles | Projek | Tugasan | NotaKalendar | AktivitiLog
  | Projects | Tasks | CalendarNotes | ContentLog | LiveLog | LiveManualLog
  | Templates | ActivityLog

datatype column =
    Col_id | Col_user_id | Col_assigned_to | Col_ditugaskan_kepada | Col_uploaded_by
  | Col_project_id | Col_projek_id

type_synonym rls_row = "column \<Rightarrow> uuid option"

datatype rls_expr =
    UidEq column    \<comment> \<open>\<^verbatim>\<open>auth.uid() = <column>\<close>\<close>
  | AdminExists     \<comment> \<open>\<^verbatim>\<open>EXISTS (SELECT 1 FROM user_profiles WHERE id = auth.uid() AND role = 'admin')\<close>\<close>
  | SqlTrue         \<comment> \<open>\<^verbatim>\<open>true\<close>\<close>
  | SqlOr rls_expr rls_expr

datatype policy_cmd = ForAll | ForSelect | ForInsert | ForUpdate | ForDelete

datatype command = Select | Insert | Update | Delete

record policy =
  pol_name :: string
  pol_table :: table_name
  pol_cmd :: policy_cmd
  pol_using :: "rls_expr option"
  pol_check :: "rls_expr option"

datatype stmt = CreatePolicy policy | DropPolicyIfExists string table_name

definition mk_policy ::
  "string \<Rightarrow> table_name \<Rightarrow> policy_cmd \<Rightarrow> rls_expr option \<Rightarrow> rls_expr option \<Rightarrow> stmt" where
  "mk_policy n t c u w =
     CreatePolicy \<lparr>pol_name = n, pol_table = t, pol_cmd = c, pol_using = u, pol_check = w\<rparr>"

text \<open>The expressions that occur in the migrations.\<close>

definition own :: rls_expr where
  "own = UidEq Col_user_id"

definition own_or_assigned :: rls_expr where
  "own_or_assigned = SqlOr (UidEq Col_user_id) (UidEq Col_assigned_to)"

definition own_or_admin :: rls_expr where
  "own_or_admin = SqlOr (UidEq Col_user_id) AdminExists"

definition own_or_assigned_or_admin :: rls_expr where
  "own_or_assigned_or_admin = SqlOr (SqlOr (UidEq Col_user_id) (UidEq Col_assigned_to)) AdminExists"

subsection \<open>The migrations, in order\<close>

text \<open>The initial schema (the Malay-named tables and \<^verbatim>\<open>user_profiles\<close>).\<close>

definition migration_initial :: "stmt list" where
  "migration_initial =
   [ mk_policy ''Users can read own profile'' UserProfiles ForSelect (Some (UidEq Col_id)) None,
     mk_policy ''Users can update own profile'' UserProfiles ForUpdate (Some (UidEq Col_id)) None,
     mk_policy ''Admins can read all profiles'' UserProfiles ForSelect (Some AdminExists) None,
     mk_policy ''Users can manage own projects'' Projek ForAll (Some own) None,
     mk_policy ''Admins can manage all projects'' Projek ForAll (Some AdminExists) None,
     mk_policy ''Users can manage own tasks'' Tugasan ForAll
       (Some (SqlOr (UidEq Col_user_id) (UidEq Col_ditugaskan_kepada))) None,
     mk_policy ''Admins can manage all tasks'' Tugasan ForAll (Some AdminExists) None,
     mk_policy ''Users can manage own calendar notes'' NotaKalendar ForAll (Some own) None,
     mk_policy ''Admins can read all calendar notes'' NotaKalendar ForSelect (Some AdminExists) None,
     mk_policy ''Users can manage own content logs'' ContentLog ForAll (Some own) None,
     mk_policy ''Admins can read all content logs'' ContentLog ForSelect (Some AdminExists) None,
     mk_policy ''Users can manage own live logs'' LiveLog ForAll (Some own) None,
     mk_policy ''Admins can read all live logs'' LiveLog ForSelect (Some AdminExists) None,
     mk_policy ''Users can read all templates'' Templates ForSelect None None,
     mk_policy ''Admins can manage all templates'' Templates ForAll (Some AdminExists) None,
     mk_policy ''Users can read own activity logs'' AktivitiLog ForSelect (Some own) None,
     mk_policy ''Admins can read all activity logs'' AktivitiLog ForSelect (Some AdminExists) None,
     mk_policy ''All users can insert activity logs'' AktivitiLog ForInsert None (Some own) ]"

text \<open>\<^verbatim>\<open>20250629205310_sparkling_gate.sql\<close>\<close>

definition migration_205310 :: "stmt list" where
  "migration_205310 =
   [ DropPolicyIfExists ''Admins can read all profiles'' UserProfiles,
     DropPolicyIfExists ''Users can read own profile'' UserProfiles,
     DropPolicyIfExists ''Users can update own profile'' UserProfiles,
     mk_policy ''Users can read own profile'' UserProfiles ForSelect (Some (UidEq Col_id)) None,
     mk_policy ''Users can create own profile'' UserProfiles ForInsert None (Some (UidEq Col_id)),
     mk_policy ''Users can update own profile'' UserProfiles ForUpdate
       (Some (UidEq Col_id)) (Some (UidEq Col_id)),
     mk_policy ''Admins can read all profiles'' UserProfiles ForSelect (Some AdminExists) None,
     mk_policy ''Admins can manage all profiles'' UserProfiles ForAll
       (Some AdminExists) (Some AdminExists) ]"

text \<open>\<^verbatim>\<open>20250629210208_young_forest.sql\<close>\<close>

definition migration_210208 :: "stmt list" where
  "migration_210208 =
   [ DropPolicyIfExists ''Users can manage own projects'' Projects,
     DropPolicyIfExists ''Admins can manage all projects'' Projects,
     DropPolicyIfExists ''Users can manage own tasks'' Tasks,
     DropPolicyIfExists ''Admins can manage all tasks'' Tasks,
     DropPolicyIfExists ''Users can manage own calendar notes'' CalendarNotes,
     DropPolicyIfExists ''Admins can read all calendar notes'' CalendarNotes,
     DropPolicyIfExists ''Users can manage own content logs'' ContentLog,
     DropPolicyIfExists ''Admins can read all content logs'' ContentLog,
     DropPolicyIfExists ''Users can manage own live logs'' LiveLog,
     DropPolicyIfExists ''Admins can read all live logs'' LiveLog,
     DropPolicyIfExists ''Users can read all templates'' Templates,
     DropPolicyIfExists ''Admins can manage all templates'' Templates,
     DropPolicyIfExists ''Users can read own activity logs'' ActivityLog,
     DropPolicyIfExists ''All users can insert activity logs'' ActivityLog,
     DropPolicyIfExists ''Admins can read all activity logs'' ActivityLog,
     mk_policy ''Users can manage own projects'' Projects ForAll (Some own) None,
     mk_policy ''Admins can manage all projects'' Projects ForAll (Some AdminExists) None,
     mk_policy ''Users can manage own tasks'' Tasks ForAll (Some own_or_assigned) None,
     mk_policy ''Admins can manage all tasks'' Tasks ForAll (Some AdminExists) None,
     mk_policy ''Users can manage own calendar notes'' CalendarNotes ForAll (Some own) None,
     mk_policy ''Admins can read all calendar notes'' CalendarNotes ForSelect (Some AdminExists) None,
     mk_policy ''Users can manage own content logs'' ContentLog ForAll (Some own) None,
     mk_policy ''Admins can read all content logs'' ContentLog ForSelect (Some AdminExists) None,
     mk_policy ''Users can manage own live logs'' LiveLog ForAll (Some own) None,
     mk_policy ''Admins can read all live logs'' LiveLog ForSelect (Some AdminExists) None,
     mk_policy ''Users can read all templates'' Templates ForSelect (Some SqlTrue) None,
     mk_policy ''Admins can manage all templates'' Templates ForAll (Some AdminExists) None,
     mk_policy ''Users can read own activity logs'' ActivityLog ForSelect (Some own) None,
     mk_policy ''All users can insert activity logs'' ActivityLog ForInsert None (Some own),
     mk_policy ''Admins can read all activity logs'' ActivityLog ForSelect (Some AdminExists) None ]"

text \<open>\<^verbatim>\<open>20250629213024_weathered_lantern.sql\<close>\<close>

definition migration_213024 :: "stmt list" where
  "migration_213024 =
   [ DropPolicyIfExists ''Admins can manage all profiles'' UserProfiles,
     DropPolicyIfExists ''Admins can read all profiles'' UserProfiles,
     DropPolicyIfExists ''Users can create own profile'' UserProfiles,
     DropPolicyIfExists ''Users can read own profile'' UserProfiles,
     DropPolicyIfExists ''Users can update own profile'' UserProfiles,
     mk_policy ''Users can manage own profile'' UserProfiles ForAll
       (Some (UidEq Col_id)) (Some (UidEq Col_id)),
     DropPolicyIfExists ''Admins can manage all projects'' Projects,
     DropPolicyIfExists ''Users can manage own projects'' Projects,
     mk_policy ''Users can manage own projects'' Projects ForAll (Some own) (Some own),
     DropPolicyIfExists ''Admins can manage all tasks'' Tasks,
     DropPolicyIfExists ''Users can manage own tasks'' Tasks,
     mk_policy ''Users can manage own tasks'' Tasks ForAll
       (Some own_or_assigned) (Some own_or_assigned),
     DropPolicyIfExists ''Admins can read all activity logs'' ActivityLog,
     DropPolicyIfExists ''All users can insert activity logs'' ActivityLog,
     DropPolicyIfExists ''Users can read own activity logs'' ActivityLog,
     mk_policy ''Users can read own activity logs'' ActivityLog ForSelect (Some own) None,
     mk_policy ''Users can insert own activity logs'' ActivityLog ForInsert None (Some own),
     DropPolicyIfExists ''Admins can read all content logs'' ContentLog,
     DropPolicyIfExists ''Users can manage own content logs'' ContentLog,
     mk_policy ''Users can manage own content logs'' ContentLog ForAll (Some own) (Some own),
     DropPolicyIfExists ''Admins can read all live logs'' LiveLog,
     DropPolicyIfExists ''Users can manage own live logs'' LiveLog,
     mk_policy ''Users can manage own live logs'' LiveLog ForAll (Some own) (Some own),
     DropPolicyIfExists ''Admins can read all calendar notes'' CalendarNotes,
     DropPolicyIfExists ''Users can manage own calendar notes'' CalendarNotes,
     mk_policy ''Users can manage own calendar notes'' CalendarNotes ForAll (Some own) (Some own),
     DropPolicyIfExists ''Admins can manage all templates'' Templates,
     DropPolicyIfExists ''Users can read all templates'' Templates,
     mk_policy ''Users can read all templates'' Templates ForSelect (Some SqlTrue) None,
     mk_policy ''Users can manage own templates'' Templates ForAll
       (Some (UidEq Col_uploaded_by)) (Some (UidEq Col_uploaded_by)),
     DropPolicyIfExists ''Admins can manage all projects'' Projek,
     DropPolicyIfExists ''Users can manage own projects'' Projek,
     mk_policy ''Users can manage own projects'' Projek ForAll (Some own) (Some own),
     DropPolicyIfExists ''Admins can manage all tasks'' Tugasan,
     DropPolicyIfExists ''Users can manage own tasks'' Tugasan,
     mk_policy ''Users can manage own tasks'' Tugasan ForAll
       (Some (SqlOr (UidEq Col_user_id) (UidEq Col_ditugaskan_kepada)))
       (Some (SqlOr (UidEq Col_user_id) (UidEq Col_ditugaskan_kepada))),
     DropPolicyIfExists ''Admins can read all calendar notes'' NotaKalendar,
     DropPolicyIfExists ''Users can manage own calendar notes'' NotaKalendar,
     mk_policy ''Users can manage own calendar notes'' NotaKalendar ForAll (Some own) (Some own),
     DropPolicyIfExists ''Admins can read all activity logs'' AktivitiLog,
     DropPolicyIfExists ''All users can insert activity logs'' AktivitiLog,
     DropPolicyIfExists ''Users can read own activity logs'' AktivitiLog,
     mk_policy ''Users can read own activity logs'' AktivitiLog ForSelect (Some own) None,
     mk_policy ''Users can insert own activity logs'' AktivitiLog ForInsert None (Some own) ]"

text \<open>
  \<^verbatim>\<open>20250629221605_hidden_paper.sql\<close> (the policies on \<^verbatim>\<open>storage.objects\<close> that follow
  it in the same file concern the object store, not a table of the schema).
\<close>

definition migration_221605 :: "stmt list" where
  "migration_221605 =
   [ mk_policy ''Users can manage own live manual logs'' LiveManualLog ForAll (Some own) (Some own) ]"

text \<open>\<^verbatim>\<open>20250629224259_fragrant_crystal.sql\<close>\<close>

definition migration_224259 :: "stmt list" where
  "migration_224259 =
   [ DropPolicyIfExists ''Users can manage own projects'' Projects,
     mk_policy ''Users can manage own projects'' Projects ForAll
       (Some own_or_admin) (Some own_or_admin),
     DropPolicyIfExists ''Users can manage own tasks'' Tasks,
     mk_policy ''Users can manage own tasks'' Tasks ForAll
       (Some own_or_assigned_or_admin) (Some own_or_assigned_or_admin),
     DropPolicyIfExists ''Users can manage own calendar notes'' CalendarNotes,
     mk_policy ''Users can manage own calendar notes'' CalendarNotes ForAll
       (Some own_or_admin) (Some own_or_admin),
     DropPolicyIfExists ''Users can manage own content logs'' ContentLog,
     mk_policy ''Users can manage own content logs'' ContentLog ForAll
       (Some own_or_admin) (Some own_or_admin),
     DropPolicyIfExists ''Users can manage own live manual logs'' LiveManualLog,
     mk_policy ''Users can manage own live manual logs'' LiveManualLog ForAll
       (Some own_or_admin) (Some own_or_admin),
     DropPolicyIfExists ''Users can manage own templates'' Templates,
     DropPolicyIfExists ''Users can read all templates'' Templates,
     mk_policy ''Users can read all templates'' Templates ForSelect (Some SqlTrue) None,
     mk_policy ''Users can manage own templates'' Templates ForAll
       (Some (SqlOr (UidEq Col_uploaded_by) AdminExists))
       (Some (SqlOr (UidEq Col_uploaded_by) AdminExists)),
     DropPolicyIfExists ''Users can read own activity logs'' ActivityLog,
     DropPolicyIfExists ''Users can insert own activity logs'' ActivityLog,
     mk_policy ''Users can read own activity logs'' ActivityLog ForSelect (Some own_or_admin) None,
     mk_policy ''Users can insert own activity logs'' ActivityLog ForInsert None (Some own) ]"

definition all_migrations :: "stmt list" where
  "all_migrations =
     migration_initial @ migration_205310 @ migration_210208 @ migration_213024
     @ migration_221605 @ migration_224259"

subsection \<open>Running the statements\<close>

text \<open>
  \<^verbatim>\<open>DROP POLICY IF EXISTS\<close> removes the policy of that name on that table, if any.
  \<^verbatim>\<open>CREATE POLICY\<close> fails when the table already has a policy of that name, and a
  failed statement aborts the run.
\<close>

definition has_policy :: "string \<Rightarrow> table_name \<Rightarrow> policy list \<Rightarrow> bool" where
  "has_policy n t ps = list_ex (\<lambda>p. pol_name p = n \<and> pol_table p = t) ps"

fun exec_stmt :: "stmt \<Rightarrow> policy list \<Rightarrow> string + policy list" where
  "exec_stmt (DropPolicyIfExists n t) ps =
     Inr (filter (\<lambda>p. \<not> (pol_name p = n \<and> pol_table p = t)) ps)"
| "exec_stmt (CreatePolicy p) ps =
     (if has_policy (pol_name p) (pol_table p) ps then Inl (pol_name p) else Inr (ps @ [p]))"

fun exec_stmts :: "stmt list \<Rightarrow> policy list \<Rightarrow> string + policy list" where
  "exec_stmts [] ps = Inr ps"
| "exec_stmts (s # ss) ps =
     (case exec_stmt s ps of Inl e \<Rightarrow> Inl e | Inr ps' \<Rightarrow> exec_stmts ss ps')"

definition final_policies :: "policy list" where
  "final_policies = (case exec_stmts all_migrations [] of Inl e \<Rightarrow> [] | Inr ps \<Rightarrow> ps)"

subsection \<open>How the store decides a request\<close>

text \<open>
  SQL conditions have three values; \<open>None\<close> is NULL. \<^verbatim>\<open>auth.uid() = c\<close> is NULL when
  the column is NULL, \<^verbatim>\<open>EXISTS\<close> is never NULL, and a row passes a policy expression
  only when the expression is true.
\<close>

fun sql_or :: "bool option \<Rightarrow> bool option \<Rightarrow> bool option" where
  "sql_or (Some True) _ = Some True"
| "sql_or _ (Some True) = Some True"
| "sql_or (Some False) (Some False) = Some False"
| "sql_or _ _ = None"

definition is_admin :: "profiles \<Rightarrow> uuid \<Rightarrow> bool" where
  "is_admin ps uid = (case ps uid of None \<Rightarrow> False | Some p \<Rightarrow> role p = Admin)"

fun eval_expr :: "profiles \<Rightarrow> uuid \<Rightarrow> rls_row \<Rightarrow> rls_expr \<Rightarrow> bool option" where
  "eval_expr ps uid r (UidEq c) = (case r c of None \<Rightarrow> None | Some v \<Rightarrow> Some (uid = v))"
| "eval_expr ps uid r AdminExists = Some (is_admin ps uid)"
| "eval_expr ps uid r SqlTrue = Some True"
| "eval_expr ps uid r (SqlOr a b) = sql_or (eval_expr ps uid r a) (eval_expr ps uid r b)"

text \<open>
  Every table of the schema has row-level security enabled and every policy is
  permissive and \<^verbatim>\<open>TO authenticated\<close>. A policy \<^verbatim>\<open>FOR ALL\<close> applies to each command.
  The rows a command may see or touch are those that pass the \<^verbatim>\<open>USING\<close> expression
  of some applicable policy; the rows it may write are those that pass the
  \<^verbatim>\<open>WITH CHECK\<close> expression of some applicable policy, where a policy without
  \<^verbatim>\<open>WITH CHECK\<close> uses its \<^verbatim>\<open>USING\<close> expression. A policy without the expression
  asked for admits nothing, and so does a table without an applicable policy.
\<close>

fun applies_to :: "policy_cmd \<Rightarrow> command \<Rightarrow> bool" where
  "applies_to ForAll c = True"
| "applies_to ForSelect c = (c = Select)"
| "applies_to ForInsert c = (c = Insert)"
| "applies_to ForUpdate c = (c = Update)"
| "applies_to ForDelete c = (c = Delete)"

definition table_policies :: "policy list \<Rightarrow> table_name \<Rightarrow> command \<Rightarrow> policy list" where
  "table_policies pols t c = filter (\<lambda>p. pol_table p = t \<and> applies_to (pol_cmd p) c) pols"

definition check_qual :: "policy \<Rightarrow> rls_expr option" where
  "check_qual p = (case pol_check p of Some e \<Rightarrow> Some e | None \<Rightarrow> pol_using p)"

definition passes :: "profiles \<Rightarrow> uuid \<Rightarrow> rls_row \<Rightarrow> rls_expr option \<Rightarrow> bool" where
  "passes ps uid r q = (case q of None \<Rightarrow> False | Some e \<Rightarrow> eval_expr ps uid r e = Some True)"

definition row_visible ::
  "policy list \<Rightarrow> profiles \<Rightarrow> uuid \<Rightarrow> table_name \<Rightarrow> command \<Rightarrow> rls_row \<Rightarrow> bool" where
  "row_visible pols ps uid t c r =
     list_ex (\<lambda>p. passes ps uid r (pol_using p)) (table_policies pols t c)"

definition row_checked ::
  "policy list \<Rightarrow> profiles \<Rightarrow> uuid \<Rightarrow> table_name \<Rightarrow> command \<Rightarrow> rls_row \<Rightarrow> bool" where
  "row_checked pols ps uid t c r =
     list_ex (\<lambda>p. passes ps uid r (check_qual p)) (table_policies pols t c)"

text \<open>The four decisions for principal \<open>uid\<close> under the policies the migrations leave.\<close>

definition can_read :: "profiles \<Rightarrow> uuid \<Rightarrow> table_name \<Rightarrow> rls_row \<Rightarrow> bool" where
  "can_read ps uid t r = row_visible final_policies ps uid t Select r"

definition can_insert :: "profiles \<Rightarrow> uuid \<Rightarrow> table_name \<Rightarrow> rls_row \<Rightarrow> bool" where
  "can_insert ps uid t r = row_checked final_policies ps uid t Insert r"

definition can_update :: "profiles \<Rightarrow> uuid \<Rightarrow> table_name \<Rightarrow> rls_row \<Rightarrow> rls_row \<Rightarrow> bool" where
  "can_update ps uid t old new =
     (row_visible final_policies ps uid t Update old \<and> row_checked final_policies ps uid t Update new)"

definition can_delete :: "profiles \<Rightarrow> uuid \<Rightarrow> table_name \<Rightarrow> rls_row \<Rightarrow> bool" where
  "can_delete ps uid t r = row_visible final_policies ps uid t Delete r"

section \<open>Foreign keys and deletion\<close>

text \<open>
  The \<^verbatim>\<open>REFERENCES ... ON DELETE ...\<close> clauses of the \<^verbatim>\<open>CREATE TABLE\<close> statements.
  The column \<^verbatim>\<open>templates.uploaded_by\<close> is the initial schema's \<^verbatim>\<open>dimuat_naik_oleh\<close>,
  renamed; a rename keeps the constraint.
\<close>

datatype on_delete = Cascade | SetNull

record foreign_key =
  fk_table :: table_name
  fk_column :: column
  fk_ref :: table_name
  fk_on_delete :: on_delete

definition fk :: "table_name \<Rightarrow> column \<Rightarrow> table_name \<Rightarrow> on_delete \<Rightarrow> foreign_key" where
  "fk t c r a = \<lparr>fk_table = t, fk_column = c, fk_ref = r, fk_on_delete = a\<rparr>"

definition foreign_keys :: "foreign_key list" where
  "foreign_keys =
   [ fk Projek Col_user_id UserProfiles Cascade,
     fk Tugasan Col_projek_id Projek Cascade,
     fk Tugasan Col_ditugaskan_kepada UserProfiles SetNull,
     fk Tugasan Col_user_id UserProfiles Cascade,
     fk NotaKalendar Col_user_id UserProfiles Cascade,
     fk ContentLog Col_user_id UserProfiles Cascade,
     fk LiveLog Col_user_id UserProfiles Cascade,
     fk Templates Col_uploaded_by UserProfiles SetNull,
     fk AktivitiLog Col_user_id UserProfiles Cascade,
     fk Projects Col_user_id UserProfiles Cascade,
     fk Tasks Col_project_id Projects Cascade,
     fk Tasks Col_assigned_to UserProfiles SetNull,
     fk Tasks Col_user_id UserProfiles Cascade,
     fk CalendarNotes Col_user_id UserProfiles Cascade,
     fk ActivityLog Col_user_id UserProfiles Cascade,
     fk LiveManualLog Col_user_id UserProfiles Cascade ]"

text \<open>
  A database gives each table its rows. A deletion request names a table, a column
  and keys: the rows whose column holds one of the keys are removed. Then, for each
  foreign key that references the table, the rows that point at the key of a removed
  row have the column set to NULL (\<^verbatim>\<open>SET NULL\<close>) or are deleted in turn
  (\<^verbatim>\<open>CASCADE\<close>). The pending requests are a work list; the fuel bounds the number
  of requests that are run, and running out of it is \<open>None\<close>.
\<close>

type_synonym database = "table_name \<Rightarrow> rls_row list"

definition has_key_in :: "column \<Rightarrow> uuid list \<Rightarrow> rls_row \<Rightarrow> bool" where
  "has_key_in c ids r = (case r c of None \<Rightarrow> False | Some v \<Rightarrow> v \<in> set ids)"

definition set_null :: "uuid list \<Rightarrow> foreign_key \<Rightarrow> database \<Rightarrow> database" where
  "set_null ids k db =
     db(fk_table k := map (\<lambda>r. if has_key_in (fk_column k) ids r then r(fk_column k := None) else r)
                        (db (fk_table k)))"

fun run_deletes ::
  "nat \<Rightarrow> (table_name \<times> column \<times> uuid list) list \<Rightarrow> database \<Rightarrow> database option" where
  "run_deletes n [] db = Some db"
| "run_deletes 0 (w # work) db = None"
| "run_deletes (Suc n) ((t, c, ids) # work) db =
     (let gone = List.map_filter (\<lambda>r. r Col_id) (filter (has_key_in c ids) (db t));
          db1 = db(t := filter (\<lambda>r. \<not> has_key_in c ids r) (db t));
          refs = filter (\<lambda>k. fk_ref k = t) foreign_keys;
          db2 = fold (set_null gone) (filter (\<lambda>k. fk_on_delete k = SetNull) refs) db1;
          children = map (\<lambda>k. (fk_table k, fk_column k, gone))
                         (filter (\<lambda>k. fk_on_delete k = Cascade) refs)
      in run_deletes n (children @ work) db2)"

text \<open>
  \<^verbatim>\<open>supabase.from('user_profiles').delete().eq('id', user?.id)\<close> of \<^verbatim>\<open>deleteAccount\<close>,
  as the store runs it once the row is the principal's own. Fourteen requests are run:
  the profile, the eleven columns that reference it with \<^verbatim>\<open>CASCADE\<close>, and the
  tasks of the deleted projects in both naming schemes.
\<close>

definition delete_profile :: "uuid \<Rightarrow> database \<Rightarrow> database option" where
  "delete_profile p db = run_deletes 14 [(UserProfiles, Col_id, [p])] db"

section \<open>The store as the client reaches it\<close>

text \<open>
  A request carries the token of the signed-in user, or none. Every policy is
  \<^verbatim>\<open>TO authenticated\<close>, so a request without a user sees and writes nothing.
\<close>

definition visible ::
  "profiles \<Rightarrow> uuid option \<Rightarrow> table_name \<Rightarrow> command \<Rightarrow> rls_row \<Rightarrow> bool" where
  "visible ps sess t c r =
     (case sess of None \<Rightarrow> False | Some uid \<Rightarrow> row_visible final_policies ps uid t c r)"

definition checked ::
  "profiles \<Rightarrow> uuid option \<Rightarrow> table_name \<Rightarrow> command \<Rightarrow> rls_row \<Rightarrow> bool" where
  "checked ps sess t c r =
     (case sess of None \<Rightarrow> False | Some uid \<Rightarrow> row_checked final_policies ps uid t c r)"

text \<open>
  \<^verbatim>\<open>UPDATE ... WHERE ...\<close>: the rows that match and that the policies show are
  rewritten; the statement fails, changing nothing, when a rewritten row fails the
  policies' check or a constraint of the table. \<^verbatim>\<open>INSERT\<close>: the new row is checked
  in the same way, the rows it refers to must exist, its key must be new, and it is
  appended.
\<close>

definition update_rows ::
  "('a \<Rightarrow> bool) \<Rightarrow> ('a \<Rightarrow> bool) \<Rightarrow> ('a \<Rightarrow> bool) \<Rightarrow> ('a \<Rightarrow> 'a) \<Rightarrow> 'a list \<Rightarrow> string + 'a list" where
  "update_rows target wcheck constraints f rows =
     (let new = map f (filter target rows) in
      if \<not> list_all wcheck new then Inl ''new row violates row-level security policy''
      else if \<not> list_all constraints new then Inl ''new row violates check constraint''
      else Inr (map (\<lambda>r. if target r then f r else r) rows))"

definition insert_row ::
  "('a \<Rightarrow> uuid) \<Rightarrow> ('a \<Rightarrow> bool) \<Rightarrow> ('a \<Rightarrow> bool) \<Rightarrow> ('a \<Rightarrow> bool) \<Rightarrow> 'a \<Rightarrow> 'a list
     \<Rightarrow> string + 'a list" where
  "insert_row key wcheck constraints refs new rows =
     (if \<not> wcheck new then Inl ''new row violates row-level security policy''
      else if \<not> constraints new then Inl ''new row violates check constraint''
      else if \<not> refs new then Inl ''insert or update on table violates foreign key constraint''
      else if key new \<in> key ` set rows then Inl ''duplicate key value violates unique constraint''
      else Inr (rows @ [new]))"

text \<open>
  What the column types and the references ask of a value that is written. An
  \<^verbatim>\<open>integer\<close> column holds 32 bits; a \<^verbatim>\<open>text\<close> column does not take the character
  of code 0; a column with \<^verbatim>\<open>REFERENCES\<close> holds null or the key of a row of the table
  it names. The store looks at a reference when a row is inserted and when an update
  changes the column.
\<close>

definition int4 :: "int \<Rightarrow> bool" where
  "int4 n = (- 2147483648 \<le> n \<and> n \<le> 2147483647)"

definition text_ok :: "string \<Rightarrow> bool" where
  "text_ok s = (CHR 0x00 \<notin> set s)"

definition refers :: "uuid option \<Rightarrow> (uuid \<Rightarrow> bool) \<Rightarrow> bool" where
  "refers v is_key = (case v of None \<Rightarrow> True | Some k \<Rightarrow> is_key k)"

definition has_profile :: "profiles \<Rightarrow> uuid \<Rightarrow> bool" where
  "has_profile ps k = (ps k \<noteq> None)"

text \<open>
  A date is a day number, day 0 being 1970-01-01. A date input of a form holds a date
  or the empty string (\<open>None\<close>), and the store does not take the empty string for a
  \<^verbatim>\<open>date\<close> column. A \<^verbatim>\<open>date\<close> column holds the days from 4714-11-24 BC to
  5874897-12-31.
\<close>

type_synonym date = int

definition date_ok :: "date \<Rightarrow> bool" where
  "date_ok d = (- 2440588 \<le> d \<and> d \<le> 2145042905)"

definition store_date :: "date option \<Rightarrow> string + date" where
  "store_date d =
     (case d of
        None \<Rightarrow> Inl ''invalid input syntax for type date''
      | Some v \<Rightarrow> if date_ok v then Inr v else Inl ''date out of range'')"

section \<open>The client\<close>

text \<open>
  The signed-in user of the identity provider, the \<^verbatim>\<open>UserProfile\<close> the client holds,
  the toasts a handler shows, and the writes it sends to the store.
\<close>

record auth_user =
  au_id :: uuid
  au_email :: "string option"

record client_profile =
  cp_id :: uuid
  cp_nama :: string
  cp_role :: role

datatype toast = ToastError string | ToastSuccess string

datatype request = Request command table_name

record 'st outcome =
  out_store :: 'st
  out_toasts :: "toast list"
  out_writes :: "request list"

text \<open>A handler that returns before it reaches the store.\<close>

definition returns :: "'st \<Rightarrow> toast list \<Rightarrow> 'st outcome" where
  "returns st ts = \<lparr>out_store = st, out_toasts = ts, out_writes = []\<rparr>"

text \<open>
  \<^verbatim>\<open>const { error } = await supabase...; if (error) throw error; toast.success(ok)\<close> inside
  \<^verbatim>\<open>try { ... } catch { toast.error(err) }\<close>.
\<close>

definition settle :: "'st \<Rightarrow> request \<Rightarrow> string \<Rightarrow> string \<Rightarrow> string + 'st \<Rightarrow> 'st outcome" where
  "settle st req ok err res =
     (case res of
        Inl e \<Rightarrow> \<lparr>out_store = st, out_toasts = [ToastError err], out_writes = [req]\<rparr>
      | Inr st' \<Rightarrow> \<lparr>out_store = st', out_toasts = [ToastSuccess ok], out_writes = [req]\<rparr>)"

subsection \<open>Tasks\<close>

datatype status = NotStarted | Ongoing | Completed

record task =
  task_id :: uuid
  task_title :: string
  task_project_id :: "uuid option"
  task_due_date :: "date option"
  task_status :: status
  task_assigned_to :: "uuid option"
  task_progress :: int
  task_user_id :: "uuid option"

definition task_row :: "task \<Rightarrow> rls_row" where
  "task_row t =
     (\<lambda>c. None)(Col_id := Some (task_id t), Col_user_id := task_user_id t,
                Col_assigned_to := task_assigned_to t, Col_project_id := task_project_id t)"

text \<open>
  \<^verbatim>\<open>progress integer DEFAULT 0 CHECK (progress >= 0 AND progress <= 100)\<close>; the
  check of \<^verbatim>\<open>status\<close> is in the type. \<^verbatim>\<open>tasks_update\<close> is an update that writes
  neither the title nor a column with a reference.
\<close>

definition task_constraints :: "task \<Rightarrow> bool" where
  "task_constraints t = (task_progress t \<ge> 0 \<and> task_progress t \<le> 100)"

definition tasks_update ::
  "profiles \<Rightarrow> uuid option \<Rightarrow> uuid \<Rightarrow> (task \<Rightarrow> task) \<Rightarrow> task list \<Rightarrow> string + task list" where
  "tasks_update ps sess tid f ts =
     update_rows (\<lambda>t. task_id t = tid \<and> visible ps sess Tasks Update (task_row t))
       (\<lambda>t. checked ps sess Tasks Update (task_row t)) task_constraints f ts"

text \<open>
  \<^verbatim>\<open>title text NOT NULL\<close>, \<^verbatim>\<open>project_id uuid REFERENCES projects(id)\<close>, and
  \<^verbatim>\<open>assigned_to\<close> and \<^verbatim>\<open>user_id\<close> with \<^verbatim>\<open>REFERENCES user_profiles(id)\<close>. \<open>projects\<close>
  holds the keys of the rows of \<^verbatim>\<open>projects\<close>.
\<close>

definition is_project :: "uuid list \<Rightarrow> uuid \<Rightarrow> bool" where
  "is_project projects k = (k \<in> set projects)"

definition task_refs :: "uuid list \<Rightarrow> profiles \<Rightarrow> task \<Rightarrow> bool" where
  "task_refs projects ps t =
     (refers (task_project_id t) (is_project projects)
      \<and> refers (task_assigned_to t) (has_profile ps)
      \<and> refers (task_user_id t) (has_profile ps))"

definition tasks_insert ::
  "uuid list \<Rightarrow> profiles \<Rightarrow> uuid option \<Rightarrow> task \<Rightarrow> task list \<Rightarrow> string + task list" where
  "tasks_insert projects ps sess t ts =
     insert_row task_id (\<lambda>t. checked ps sess Tasks Insert (task_row t))
       (\<lambda>t. task_constraints t \<and> text_ok (task_title t)) (task_refs projects ps) t ts"

text \<open>
  \<^verbatim>\<open>const newStatus = newProgress === 100 ? 'Completed' : newProgress > 0 ? 'Ongoing' : 'Not Started';\<close>
\<close>

definition newStatus :: "int \<Rightarrow> status" where
  "newStatus newProgress =
     (if newProgress = 100 then Completed else if newProgress > 0 then Ongoing else NotStarted)"

definition updateProgress ::
  "profiles \<Rightarrow> uuid option \<Rightarrow> uuid \<Rightarrow> int \<Rightarrow> task list \<Rightarrow> task list outcome" where
  "updateProgress ps sess taskId newProgress ts =
     settle ts (Request Update Tasks) ''Kemajuan tugasan dikemaskini'' ''Ralat mengemas kini kemajuan''
       (tasks_update ps sess taskId
          (\<lambda>t. t\<lparr>task_progress := newProgress, task_status := newStatus newProgress\<rparr>) ts)"

text \<open>
  The form of the task dialog: a status select and a progress slider, each bound to
  its own field of \<^verbatim>\<open>formData\<close>. \<^verbatim>\<open>handleSubmit\<close> sends
  \<^verbatim>\<open>{...formData, project_id: formData.project_id || null}\<close>, as an update of the task
  being edited or as an insert with \<^verbatim>\<open>user_id: user.id\<close>.
\<close>

record task_form =
  tf_title :: string
  tf_project_id :: string
  tf_due_date :: "date option"
  tf_status :: status
  tf_progress :: int

definition form_project_id :: "task_form \<Rightarrow> uuid option" where
  "form_project_id f = (if tf_project_id f = [] then None else Some (tf_project_id f))"

text \<open>
  The update that the form sends: the five columns of the form. The values must fit
  the types of their columns whatever rows the update reaches; a row whose
  \<^verbatim>\<open>project_id\<close> changes must then refer to a project.
\<close>

definition form_patch :: "task_form \<Rightarrow> date \<Rightarrow> task \<Rightarrow> task" where
  "form_patch formData d t =
     t\<lparr>task_title := tf_title formData, task_project_id := form_project_id formData,
       task_due_date := Some d, task_status := tf_status formData,
       task_progress := tf_progress formData\<rparr>"

definition tasks_update_form ::
  "uuid list \<Rightarrow> profiles \<Rightarrow> uuid option \<Rightarrow> uuid \<Rightarrow> task_form \<Rightarrow> date \<Rightarrow> task list
     \<Rightarrow> string + task list" where
  "tasks_update_form projects ps sess tid formData d ts =
     (let rewritten = filter (\<lambda>t. task_id t = tid \<and> visible ps sess Tasks Update (task_row t)) ts in
      if \<not> text_ok (tf_title formData) then Inl ''unsupported Unicode escape sequence''
      else if \<not> int4 (tf_progress formData) then Inl ''value out of range for type integer''
      else if \<not> list_all (\<lambda>t. form_project_id formData = task_project_id t
                                \<or> refers (form_project_id formData) (is_project projects)) rewritten
      then Inl ''insert or update on table violates foreign key constraint''
      else tasks_update ps sess tid (form_patch formData d) ts)"

definition tasks_handleSubmit ::
  "uuid list \<Rightarrow> profiles \<Rightarrow> auth_user option \<Rightarrow> task option \<Rightarrow> task_form \<Rightarrow> uuid \<Rightarrow> task list
     \<Rightarrow> task list outcome" where
  "tasks_handleSubmit projects ps user editingTask formData new_id ts =
     (case user of
        None \<Rightarrow> returns ts []
      | Some u \<Rightarrow>
          (case editingTask of
             Some e \<Rightarrow>
               settle ts (Request Update Tasks) ''Tugasan berjaya dikemaskini''
                 ''Ralat semasa menyimpan tugasan''
                 (case store_date (tf_due_date formData) of
                    Inl x \<Rightarrow> Inl x
                  | Inr d \<Rightarrow>
                      tasks_update_form projects ps (Some (au_id u)) (task_id e) formData d ts)
           | None \<Rightarrow>
               settle ts (Request Insert Tasks) ''Tugasan berjaya ditambah''
                 ''Ralat semasa menyimpan tugasan''
                 (case store_date (tf_due_date formData) of
                    Inl x \<Rightarrow> Inl x
                  | Inr d \<Rightarrow>
                      tasks_insert projects ps (Some (au_id u))
                        \<lparr>task_id = new_id, task_title = tf_title formData,
                         task_project_id = form_project_id formData,
                         task_due_date = Some d, task_status = tf_status formData,
                         task_assigned_to = None, task_progress = tf_progress formData,
                         task_user_id = Some (au_id u)\<rparr> ts)))"

text \<open>
  The invariant in the words of the specification:
  progress = 100 implies Completed, progress = 0 implies NotStarted, otherwise Ongoing.
\<close>

definition spec_task_invariant :: "task \<Rightarrow> bool" where
  "spec_task_invariant t =
     (if task_progress t = 100 then task_status t = Completed
      else if task_progress t = 0 then task_status t = NotStarted
      else task_status t = Ongoing)"

subsection \<open>Content tracker\<close>

record content_log =
  cl_id :: uuid
  cl_user_id :: "uuid option"
  cl_log_date :: date
  cl_content_count :: int

record content_form =
  cf_log_date :: "date option"
  cf_content_count :: int

definition content_row :: "content_log \<Rightarrow> rls_row" where
  "content_row l = (\<lambda>c. None)(Col_id := Some (cl_id l), Col_user_id := cl_user_id l)"

text \<open>
  \<^verbatim>\<open>content_log\<close> has the primary key, \<^verbatim>\<open>user_id uuid REFERENCES user_profiles(id)\<close>,
  \<^verbatim>\<open>log_date date NOT NULL\<close> and \<^verbatim>\<open>content_count integer DEFAULT 0\<close>; no constraint
  mentions \<^verbatim>\<open>(user_id, log_date)\<close>. An update writes the count, which must fit its
  column whatever rows the update reaches.
\<close>

definition content_constraints :: "content_log \<Rightarrow> bool" where
  "content_constraints l = int4 (cl_content_count l)"

definition content_update ::
  "profiles \<Rightarrow> uuid option \<Rightarrow> uuid \<Rightarrow> int \<Rightarrow> content_log list \<Rightarrow> string + content_log list" where
  "content_update ps sess lid n rows =
     (if \<not> int4 n then Inl ''value out of range for type integer''
      else
        update_rows (\<lambda>l. cl_id l = lid \<and> visible ps sess ContentLog Update (content_row l))
          (\<lambda>l. checked ps sess ContentLog Update (content_row l)) (\<lambda>l. True)
          (\<lambda>l. l\<lparr>cl_content_count := n\<rparr>) rows)"

definition content_insert ::
  "profiles \<Rightarrow> uuid option \<Rightarrow> content_log \<Rightarrow> content_log list \<Rightarrow> string + content_log list" where
  "content_insert ps sess l rows =
     insert_row cl_id (\<lambda>l. checked ps sess ContentLog Insert (content_row l)) content_constraints
       (\<lambda>l. refers (cl_user_id l) (has_profile ps)) l rows"

text \<open>
  \<^verbatim>\<open>handleSubmit\<close> of the content tracker. \<open>logs\<close> is the list the client fetched,
  \<open>rows\<close> the table in the store.
\<close>

definition content_handleSubmit ::
  "profiles \<Rightarrow> auth_user option \<Rightarrow> content_log list \<Rightarrow> content_log option \<Rightarrow> content_form \<Rightarrow> uuid
     \<Rightarrow> content_log list \<Rightarrow> content_log list outcome" where
  "content_handleSubmit ps user logs editingLog formData new_id rows =
     (case user of
        None \<Rightarrow> returns rows []
      | Some u \<Rightarrow>
          (let existingLog = find (\<lambda>l. Some (cl_log_date l) = cf_log_date formData) logs in
           if existingLog \<noteq> None \<and> editingLog = None
           then returns rows
                  [ToastError ''Log untuk tarikh ini sudah wujud. Sila edit log yang sedia ada.'']
           else
             (case editingLog of
                Some e \<Rightarrow>
                  settle rows (Request Update ContentLog) ''Log content berjaya dikemaskini''
                    ''Ralat semasa menyimpan log content''
                    (content_update ps (Some (au_id u)) (cl_id e) (cf_content_count formData) rows)
              | None \<Rightarrow>
                  settle rows (Request Insert ContentLog) ''Log content berjaya ditambah''
                    ''Ralat semasa menyimpan log content''
                    (case store_date (cf_log_date formData) of
                       Inl x \<Rightarrow> Inl x
                     | Inr d \<Rightarrow>
                         content_insert ps (Some (au_id u))
                           \<lparr>cl_id = new_id, cl_user_id = Some (au_id u), cl_log_date = d,
                            cl_content_count = cf_content_count formData\<rparr> rows))))"

subsection \<open>Numbers and strings of the client\<close>

text \<open>
  A number of the client is a double of IEEE 754: a finite value, an infinity or NaN.
  A finite double is written here as the rational it denotes; the two zeros are one.
  \<open>to_double x\<close> is the double nearest to the rational \<open>x\<close>, a tie going to the even
  significand: the value of a decimal that the client parses, and of the exact result
  of an arithmetic operation. The significand has 53 bits, the exponent of the
  leading bit goes from -1022 to 1023, and a result of magnitude \<open>2 ^ 1024\<close> is an
  infinity.
\<close>

datatype number = Num rat | PosInf | NegInf | NaN

fun halvings :: "nat \<Rightarrow> rat \<Rightarrow> nat" where
  "halvings 0 x = 0"
| "halvings (Suc n) x = (if 2 \<le> x then Suc (halvings n (x / 2)) else 0)"

fun doublings :: "nat \<Rightarrow> rat \<Rightarrow> nat" where
  "doublings 0 x = 0"
| "doublings (Suc n) x = (if x < 1 then Suc (doublings n (x * 2)) else 0)"

text \<open>
  The exponent of the leading bit of \<open>x\<close>, kept between -1022 (below it the doubles
  are subnormal, with the spacing of that exponent) and 1024.
\<close>

definition exponent :: "rat \<Rightarrow> int" where
  "exponent x =
     (if 1 \<le> \<bar>x\<bar> then int (halvings 1024 \<bar>x\<bar>) else - int (doublings 1022 \<bar>x\<bar>))"

definition round_half_even :: "rat \<Rightarrow> int" where
  "round_half_even q =
     (let f = \<lfloor>q\<rfloor>; r = q - of_int f
      in if r < 1 / 2 then f else if 1 / 2 < r then f + 1 else if even f then f else f + 1)"

definition to_double :: "rat \<Rightarrow> number" where
  "to_double x =
     (let ulp = 2 powi (exponent x - 52);
          y = of_int (round_half_even (x / ulp)) * ulp
      in if 2 ^ 1024 \<le> \<bar>y\<bar> then (if 0 < x then PosInf else NegInf) else Num y)"

text \<open>
  \<^verbatim>\<open>x + y\<close>, \<^verbatim>\<open>x * 100\<close>, \<^verbatim>\<open>x / 100\<close>, \<^verbatim>\<open>Math.round(x)\<close> (the nearest integer, a tie
  going up) and \<^verbatim>\<open>x <= 0\<close> on numbers.
\<close>

fun num_add :: "number \<Rightarrow> number \<Rightarrow> number" where
  "num_add (Num a) (Num b) = to_double (a + b)"
| "num_add NaN y = NaN"
| "num_add x NaN = NaN"
| "num_add PosInf NegInf = NaN"
| "num_add NegInf PosInf = NaN"
| "num_add PosInf y = PosInf"
| "num_add x PosInf = PosInf"
| "num_add NegInf y = NegInf"
| "num_add x NegInf = NegInf"

fun times_100 :: "number \<Rightarrow> number" where
  "times_100 (Num a) = to_double (a * 100)"
| "times_100 x = x"

fun div_100 :: "number \<Rightarrow> number" where
  "div_100 (Num a) = to_double (a / 100)"
| "div_100 x = x"

fun math_round :: "number \<Rightarrow> number" where
  "math_round (Num a) = Num (of_int \<lfloor>a + 1 / 2\<rfloor>)"
| "math_round x = x"

fun le_zero :: "number \<Rightarrow> bool" where
  "le_zero (Num a) = (a \<le> 0)"
| "le_zero NegInf = True"
| "le_zero x = False"

text \<open>
  \<^verbatim>\<open>JSON.stringify\<close> writes a finite number as a decimal and an infinity or NaN as
  \<^verbatim>\<open>null\<close>. The decimal is the one of \<^verbatim>\<open>Number::toString\<close> of the platform, \<open>digits\<close>
  below: a decimal of the fewest digits among those that read back as the number.
\<close>

fun json_number :: "(rat \<Rightarrow> rat) \<Rightarrow> number \<Rightarrow> rat option" where
  "json_number digits (Num a) = Some (digits a)"
| "json_number digits x = None"

text \<open>
  A string of the client is a list of UTF-16 code units. \<^verbatim>\<open>String.prototype.trim\<close>
  removes the white space and the line terminators of the language at both ends. A
  \<^verbatim>\<open>text\<close> column takes a string whose surrogates are paired and that has no code
  unit 0.
\<close>

type_synonym utf16 = "nat list"

definition is_white_space :: "nat \<Rightarrow> bool" where
  "is_white_space c =
     (c \<in> {0x0009, 0x000A, 0x000B, 0x000C, 0x000D, 0x0020, 0x00A0, 0x1680, 0x2028, 0x2029,
            0x202F, 0x205F, 0x3000, 0xFEFF}
      \<or> (0x2000 \<le> c \<and> c \<le> 0x200A))"

definition trim :: "utf16 \<Rightarrow> utf16" where
  "trim s = rev (dropWhile is_white_space (rev (dropWhile is_white_space s)))"

definition high_surrogate :: "nat \<Rightarrow> bool" where
  "high_surrogate c = (0xD800 \<le> c \<and> c \<le> 0xDBFF)"

definition low_surrogate :: "nat \<Rightarrow> bool" where
  "low_surrogate c = (0xDC00 \<le> c \<and> c \<le> 0xDFFF)"

fun well_formed :: "utf16 \<Rightarrow> bool" where
  "well_formed [] = True"
| "well_formed [c] = (\<not> high_surrogate c \<and> \<not> low_surrogate c)"
| "well_formed (c # d # s) =
     (if high_surrogate c then low_surrogate d \<and> well_formed s
      else \<not> low_surrogate c \<and> well_formed (d # s))"

definition utf16_ok :: "utf16 \<Rightarrow> bool" where
  "utf16_ok s = (0 \<notin> set s \<and> well_formed s)"

subsection \<open>Live host\<close>

text \<open>
  \<^verbatim>\<open>live_manual_log\<close>:
  \<^verbatim>\<open>user_id uuid REFERENCES user_profiles(id) ON DELETE CASCADE\<close>,
  \<^verbatim>\<open>host_name text NOT NULL\<close>, \<^verbatim>\<open>live_date date NOT NULL\<close> and
  \<^verbatim>\<open>total_hours numeric NOT NULL DEFAULT 0 CHECK (total_hours >= 0)\<close>; nothing is
  unique but the key. The hours of a row are an exact decimal in the store (a
  rational here) and a number in the client.
\<close>

record 'h live_manual_log =
  lml_id :: uuid
  lml_user_id :: "uuid option"
  lml_host_name :: utf16
  lml_live_date :: date
  lml_total_hours :: 'h

record live_form =
  lf_host_name :: utf16
  lf_live_date :: "date option"
  lf_total_hours :: number

definition live_row :: "'h live_manual_log \<Rightarrow> rls_row" where
  "live_row l = (\<lambda>c. None)(Col_id := Some (lml_id l), Col_user_id := lml_user_id l)"

definition live_insert ::
  "profiles \<Rightarrow> uuid option \<Rightarrow> rat live_manual_log \<Rightarrow> rat live_manual_log list
     \<Rightarrow> string + rat live_manual_log list" where
  "live_insert ps sess l rows =
     insert_row lml_id (\<lambda>l. checked ps sess LiveManualLog Insert (live_row l))
       (\<lambda>l. 0 \<le> lml_total_hours l \<and> utf16_ok (lml_host_name l))
       (\<lambda>l. refers (lml_user_id l) (has_profile ps)) l rows"

text \<open>
  The update of the form writes the name, the date and the hours. The name must be
  one that the column takes whatever rows the update reaches; \<^verbatim>\<open>null\<close> hours are
  refused for a row that is rewritten.
\<close>

definition live_update ::
  "profiles \<Rightarrow> uuid option \<Rightarrow> uuid \<Rightarrow> utf16 \<Rightarrow> date \<Rightarrow> rat option \<Rightarrow> rat live_manual_log list
     \<Rightarrow> string + rat live_manual_log list" where
  "live_update ps sess lid host d hours rows =
     (let target = (\<lambda>l. lml_id l = lid \<and> visible ps sess LiveManualLog Update (live_row l)) in
      if \<not> utf16_ok host then Inl ''unsupported Unicode escape sequence''
      else
        (case hours of
           None \<Rightarrow>
             if filter target rows = [] then Inr rows
             else Inl ''null value in column violates not-null constraint''
         | Some h \<Rightarrow>
             update_rows target (\<lambda>l. checked ps sess LiveManualLog Update (live_row l))
               (\<lambda>l. 0 \<le> lml_total_hours l)
               (\<lambda>l. l\<lparr>lml_host_name := host, lml_live_date := d, lml_total_hours := h\<rparr>) rows))"

text \<open>
  \<^verbatim>\<open>handleSubmit\<close> of the live host page. \<open>editingLog\<close> is the log of the client that
  is being edited, if any.
\<close>

definition live_handleSubmit ::
  "(rat \<Rightarrow> rat) \<Rightarrow> profiles \<Rightarrow> auth_user option \<Rightarrow> number live_manual_log option \<Rightarrow> live_form
     \<Rightarrow> uuid \<Rightarrow> rat live_manual_log list \<Rightarrow> rat live_manual_log list outcome" where
  "live_handleSubmit digits ps user editingLog formData new_id rows =
     (case user of
        None \<Rightarrow> returns rows []
      | Some u \<Rightarrow>
          if trim (lf_host_name formData) = []
          then returns rows [ToastError ''Nama host tidak boleh kosong'']
          else if le_zero (lf_total_hours formData)
          then returns rows [ToastError ''Jumlah jam mestilah lebih dari 0'']
          else
            (case editingLog of
               Some e \<Rightarrow>
                 settle rows (Request Update LiveManualLog) ''Log live berjaya dikemaskini''
                   ''Ralat semasa menyimpan log live''
                   (case store_date (lf_live_date formData) of
                      Inl x \<Rightarrow> Inl x
                    | Inr d \<Rightarrow>
                        live_update ps (Some (au_id u)) (lml_id e) (trim (lf_host_name formData)) d
                          (json_number digits (lf_total_hours formData)) rows)
             | None \<Rightarrow>
                 settle rows (Request Insert LiveManualLog) ''Log live berjaya ditambah''
                   ''Ralat semasa menyimpan log live''
                   (case store_date (lf_live_date formData) of
                      Inl x \<Rightarrow> Inl x
                    | Inr d \<Rightarrow>
                        (case json_number digits (lf_total_hours formData) of
                           None \<Rightarrow> Inl ''null value in column violates not-null constraint''
                         | Some h \<Rightarrow>
                             live_insert ps (Some (au_id u))
                               \<lparr>lml_id = new_id, lml_user_id = Some (au_id u),
                                lml_host_name = trim (lf_host_name formData), lml_live_date = d,
                                lml_total_hours = h\<rparr> rows))))"

text \<open>
  A row as the client holds it after \<^verbatim>\<open>fetchLogs\<close>: the decimal of the hours is
  parsed to a number.
\<close>

definition fetched :: "rat live_manual_log \<Rightarrow> number live_manual_log" where
  "fetched l =
     \<lparr>lml_id = lml_id l, lml_user_id = lml_user_id l, lml_host_name = lml_host_name l,
      lml_live_date = lml_live_date l, lml_total_hours = to_double (lml_total_hours l)\<rparr>"

text \<open>
  \<^verbatim>\<open>getTotalHours\<close> is
  \<^verbatim>\<open>Math.round(logs.reduce((total, log) => total + log.total_hours, 0) * 100) / 100\<close>.
\<close>

definition getTotalHours :: "number live_manual_log list \<Rightarrow> number" where
  "getTotalHours logs =
     div_100 (math_round (times_100
       (foldl (\<lambda>total log. num_add total (lml_total_hours log)) (Num 0) logs)))"

text \<open>
  \<^verbatim>\<open>getThisWeekHours\<close>. \<open>oneWeekAgo\<close> is the time value, in milliseconds, of the date
  that \<^verbatim>\<open>const oneWeekAgo = new Date(); oneWeekAgo.setDate(oneWeekAgo.getDate() - 7)\<close>
  leaves: the clock and the local calendar are those of the browser.
  \<^verbatim>\<open>new Date(log.live_date)\<close> is midnight (UTC) of the day when the year of the date
  has four digits (0001-01-01 to 9999-12-31), the date format of the language; how
  another date string is read is left to the browser.
\<close>

definition date_ms :: "date \<Rightarrow> int" where
  "date_ms d = d * 86400000"

definition four_digit_year :: "date \<Rightarrow> bool" where
  "four_digit_year d = (- 719162 \<le> d \<and> d \<le> 2932896)"

definition getThisWeekHours :: "int \<Rightarrow> number live_manual_log list \<Rightarrow> number" where
  "getThisWeekHours oneWeekAgo logs =
     div_100 (math_round (times_100
       (foldl (\<lambda>total log. num_add total (lml_total_hours log)) (Num 0)
          (filter (\<lambda>log. oneWeekAgo \<le> date_ms (lml_live_date log)) logs))))"

subsection \<open>Realtime subscriptions\<close>

text \<open>
  \<^verbatim>\<open>useRealTimeSync({ table, onUpdate, filter })\<close> subscribes, for a signed-in user, to
  the changes of \<open>table\<close> with \<^verbatim>\<open>filter: filter || `user_id=eq.${user.id}`\<close>; an
  undefined or empty filter is falsy.
\<close>

record subscription =
  sub_channel :: string
  sub_event :: string
  sub_schema :: string
  sub_table :: string
  sub_filter :: string

definition useRealTimeSync :: "auth_user option \<Rightarrow> string \<Rightarrow> string option \<Rightarrow> subscription option" where
  "useRealTimeSync user table fltr =
     (case user of
        None \<Rightarrow> None
      | Some u \<Rightarrow>
          Some \<lparr>sub_channel = ''realtime-'' @ table, sub_event = ''*'', sub_schema = ''public'',
                sub_table = table,
                sub_filter =
                  (case fltr of
                     None \<Rightarrow> ''user_id=eq.'' @ au_id u
                   | Some f \<Rightarrow> if f = [] then ''user_id=eq.'' @ au_id u else f)\<rparr>)"

text \<open>
  The argument that the views Projects, Tasks and LiveHost pass:
  \<^verbatim>\<open>filter: profile?.role === 'admin' ? undefined : `user_id=eq.${user?.id}`\<close>.
\<close>

definition view_filter :: "client_profile option \<Rightarrow> auth_user option \<Rightarrow> string option" where
  "view_filter profile user =
     (if map_option cp_role profile = Some Admin then None
      else Some (''user_id=eq.'' @ (case user of None \<Rightarrow> ''undefined'' | Some u \<Rightarrow> au_id u)))"

definition view_subscription ::
  "string \<Rightarrow> client_profile option \<Rightarrow> auth_user option \<Rightarrow> subscription option" where
  "view_subscription table profile user = useRealTimeSync user table (view_filter profile user)"

text \<open>
  A change event names its table and carries the row. The feed delivers it to a
  subscription of that table whose filter \<^verbatim>\<open>user_id=eq.v\<close> the row satisfies (the
  client builds no other filter); on delivery the hook calls \<^verbatim>\<open>onUpdate\<close>, the view's
  fetch of the whole list.
\<close>

record change_event =
  ev_table :: string
  ev_user_id :: "uuid option"

fun strip_prefix :: "string \<Rightarrow> string \<Rightarrow> string option" where
  "strip_prefix [] s = Some s"
| "strip_prefix (p # ps) [] = None"
| "strip_prefix (p # ps) (c # cs) = (if p = c then strip_prefix ps cs else None)"

definition delivers :: "subscription \<Rightarrow> change_event \<Rightarrow> bool" where
  "delivers sub ev =
     (ev_table ev = sub_table sub \<and>
      (case strip_prefix ''user_id=eq.'' (sub_filter sub) of
         None \<Rightarrow> False
       | Some v \<Rightarrow> ev_user_id ev = Some v))"

subsection \<open>Profiles: the auth context and the settings page\<close>

definition profile_row :: "uuid \<Rightarrow> rls_row" where
  "profile_row i = (\<lambda>c. None)(Col_id := Some i)"

text \<open>
  The requests of the client on \<^verbatim>\<open>user_profiles\<close>, each by the key:
  \<^verbatim>\<open>.select('*').eq('id', i).maybeSingle()\<close>, \<^verbatim>\<open>.insert([row]).select().single()\<close>,
  \<^verbatim>\<open>.update(f).eq('id', i)\<close> and \<^verbatim>\<open>.delete().eq('id', i)\<close>.
\<close>

definition profiles_select :: "profiles \<Rightarrow> uuid option \<Rightarrow> uuid \<Rightarrow> string + user_profile option" where
  "profiles_select ps sess i =
     (case ps i of
        None \<Rightarrow> Inr None
      | Some p \<Rightarrow> if visible ps sess UserProfiles Select (profile_row i) then Inr (Some p) else Inr None)"

definition profiles_insert ::
  "profiles \<Rightarrow> uuid option \<Rightarrow> uuid \<Rightarrow> user_profile \<Rightarrow> string + profiles" where
  "profiles_insert ps sess i p =
     (if \<not> checked ps sess UserProfiles Insert (profile_row i)
      then Inl ''new row violates row-level security policy''
      else if ps i \<noteq> None then Inl ''duplicate key value violates unique constraint''
      else Inr (ps(i \<mapsto> p)))"

definition profiles_update ::
  "profiles \<Rightarrow> uuid option \<Rightarrow> uuid \<Rightarrow> (user_profile \<Rightarrow> user_profile) \<Rightarrow> string + profiles" where
  "profiles_update ps sess i f =
     (case ps i of
        None \<Rightarrow> Inr ps
      | Some p \<Rightarrow>
          if \<not> visible ps sess UserProfiles Update (profile_row i) then Inr ps
          else if \<not> checked ps sess UserProfiles Update (profile_row i)
          then Inl ''new row violates row-level security policy''
          else Inr (ps(i \<mapsto> f p)))"

text \<open>
  \<^verbatim>\<open>handleRoleChange(userId, newRole)\<close> of the settings page. \<open>profile\<close> and \<open>user\<close>
  are the client's state and \<open>confirmed\<close> the answer to the \<^verbatim>\<open>confirm\<close> dialog.
\<close>

definition handleRoleChange ::
  "client_profile option \<Rightarrow> auth_user option \<Rightarrow> bool \<Rightarrow> uuid \<Rightarrow> role \<Rightarrow> profiles \<Rightarrow> profiles outcome" where
  "handleRoleChange profile user confirmed userId newRole ps =
     (if map_option cp_role profile \<noteq> Some Admin
      then returns ps [ToastError ''Hanya admin boleh mengubah peranan pengguna'']
      else if Some userId = map_option au_id user
      then returns ps [ToastError ''Anda tidak boleh mengubah peranan anda sendiri'']
      else if \<not> confirmed then returns ps []
      else
        settle ps (Request Update UserProfiles)
          (''Peranan pengguna berjaya dikemaskini kepada ''
             @ (if newRole = Admin then ''Admin'' else ''Pengguna''))
          ''Ralat mengemas kini peranan pengguna''
          (profiles_update ps (map_option au_id user) userId (\<lambda>p. p\<lparr>role := newRole\<rparr>)))"

text \<open>
  The auth context holds the profile of the signed-in user beside the store.
  \<^verbatim>\<open>fetchProfile(userId)\<close> runs with the session of \<open>userId\<close>; \<open>user\<close> is the state
  variable that its closure reads for the name,
  \<^verbatim>\<open>user?.email?.split('@')[0] || 'Pengguna Baru'\<close>.
\<close>

record auth_state =
  as_profiles :: profiles
  as_profile :: "client_profile option"

definition default_nama :: "auth_user option \<Rightarrow> string" where
  "default_nama user =
     (case user of
        None \<Rightarrow> ''Pengguna Baru''
      | Some u \<Rightarrow>
          (case au_email u of
             None \<Rightarrow> ''Pengguna Baru''
           | Some e \<Rightarrow>
               (let n = takeWhile (\<lambda>c. c \<noteq> CHR ''@'') e
                in if n = [] then ''Pengguna Baru'' else n)))"

definition client_view :: "uuid \<Rightarrow> user_profile \<Rightarrow> client_profile" where
  "client_view i p = \<lparr>cp_id = i, cp_nama = nama p, cp_role = role p\<rparr>"

definition fetchProfile :: "auth_user option \<Rightarrow> uuid \<Rightarrow> auth_state \<Rightarrow> auth_state outcome" where
  "fetchProfile user userId st =
     (case profiles_select (as_profiles st) (Some userId) userId of
        Inl e \<Rightarrow> returns st [ToastError ''Ralat mengambil profil pengguna'']
      | Inr (Some data) \<Rightarrow> returns (st\<lparr>as_profile := Some (client_view userId data)\<rparr>) []
      | Inr None \<Rightarrow>
          (let newProfile = \<lparr>nama = default_nama user, role = User\<rparr> in
           case profiles_insert (as_profiles st) (Some userId) userId newProfile of
             Inl e \<Rightarrow>
               \<lparr>out_store = st, out_toasts = [ToastError ''Ralat mencipta profil pengguna''],
                out_writes = [Request Insert UserProfiles]\<rparr>
           | Inr ps' \<Rightarrow>
               \<lparr>out_store = \<lparr>as_profiles = ps', as_profile = Some (client_view userId newProfile)\<rparr>,
                out_toasts = [ToastSuccess ''Profil pengguna berjaya dicipta''],
                out_writes = [Request Insert UserProfiles]\<rparr>))"

text \<open>
  \<^verbatim>\<open>updateProfile(updates: Partial<UserProfile>)\<close> of the auth context, which every
  component reaches through \<^verbatim>\<open>useAuth()\<close>: the update sent is
  \<^verbatim>\<open>{ ...updates, updated_at }\<close> on the row of the signed-in user, whatever columns
  \<open>updates\<close> names. The settings page calls it with the name.
\<close>

record profile_updates =
  pu_nama :: "string option"
  pu_role :: "role option"

definition apply_updates :: "profile_updates \<Rightarrow> user_profile \<Rightarrow> user_profile" where
  "apply_updates u p =
     p\<lparr>nama := (case pu_nama u of None \<Rightarrow> nama p | Some n \<Rightarrow> n),
       role := (case pu_role u of None \<Rightarrow> role p | Some r \<Rightarrow> r)\<rparr>"

definition apply_updates_client :: "profile_updates \<Rightarrow> client_profile \<Rightarrow> client_profile" where
  "apply_updates_client u p =
     p\<lparr>cp_nama := (case pu_nama u of None \<Rightarrow> cp_nama p | Some n \<Rightarrow> n),
       cp_role := (case pu_role u of None \<Rightarrow> cp_role p | Some r \<Rightarrow> r)\<rparr>"

definition updateProfile :: "auth_user option \<Rightarrow> profile_updates \<Rightarrow> auth_state \<Rightarrow> auth_state outcome" where
  "updateProfile user updates st =
     (case user of
        None \<Rightarrow> returns st []
      | Some u \<Rightarrow>
          (case profiles_update (as_profiles st) (Some (au_id u)) (au_id u) (apply_updates updates) of
             Inl e \<Rightarrow>
               \<lparr>out_store = st, out_toasts = [ToastError ''Ralat mengemas kini profil''],
                out_writes = [Request Update UserProfiles]\<rparr>
           | Inr ps' \<Rightarrow>
               \<lparr>out_store =
                  \<lparr>as_profiles = ps',
                   as_profile = map_option (apply_updates_client updates) (as_profile st)\<rparr>,
                out_toasts = [ToastSuccess ''Profil berjaya dikemaskini''],
                out_writes = [Request Update UserProfiles, Request Insert ActivityLog]\<rparr>))"

section \<open>Sample data\<close>

text \<open>
  A small store for the concrete instances below: an admin \<open>a\<close>, two users \<open>u1\<close> and
  \<open>u2\<close>, a task of \<open>u1\<close>, and a database in which \<open>u1\<close> owns a project, a task and a
  live log, has uploaded a template, and is the assignee of a task of \<open>u2\<close>.
\<close>

definition sample_profiles :: profiles where
  "sample_profiles =
     [''a'' \<mapsto> \<lparr>nama = ''Admin'', role = Admin\<rparr>, ''u1'' \<mapsto> \<lparr>nama = ''Aina'', role = User\<rparr>,
      ''u2'' \<mapsto> \<lparr>nama = ''Badrul'', role = User\<rparr>]"

definition sample_admin :: client_profile where
  "sample_admin = \<lparr>cp_id = ''a'', cp_nama = ''Admin'', cp_role = Admin\<rparr>"

text \<open>A profile store without an admin.\<close>

definition sample_users :: profiles where
  "sample_users = [''u1'' \<mapsto> \<lparr>nama = ''Aina'', role = User\<rparr>, ''u2'' \<mapsto> \<lparr>nama = ''Badrul'', role = User\<rparr>]"

definition sample_task :: task where
  "sample_task =
     \<lparr>task_id = ''t1'', task_title = ''Design'', task_project_id = None,
      task_due_date = Some 20270, task_status = Ongoing, task_assigned_to = None,
      task_progress = 50, task_user_id = Some ''u1''\<rparr>"

definition sample_form :: task_form where
  "sample_form =
     \<lparr>tf_title = ''Design'', tf_project_id = [], tf_due_date = Some 20270,
      tf_status = Completed, tf_progress = 0\<rparr>"

text \<open>
  Two live logs of \<open>u1\<close> for one day, with the host names Aina and Badrul, and the
  form that asks for the second.
\<close>

definition sample_live :: "rat live_manual_log" where
  "sample_live =
     \<lparr>lml_id = ''l1'', lml_user_id = Some ''u1'', lml_host_name = [65, 105, 110, 97],
      lml_live_date = 20270, lml_total_hours = 3 / 2\<rparr>"

definition sample_live2 :: "rat live_manual_log" where
  "sample_live2 =
     \<lparr>lml_id = ''l2'', lml_user_id = Some ''u1'', lml_host_name = [66, 97, 100, 114, 117, 108],
      lml_live_date = 20270, lml_total_hours = 2\<rparr>"

definition sample_live_form :: live_form where
  "sample_live_form =
     \<lparr>lf_host_name = [32, 66, 97, 100, 114, 117, 108, 160], lf_live_date = Some 20270,
      lf_total_hours = Num 2\<rparr>"

definition sample_content :: content_log where
  "sample_content =
     \<lparr>cl_id = ''c1'', cl_user_id = Some ''u1'', cl_log_date = 20270, cl_content_count = 4\<rparr>"

definition sample_row :: "uuid \<Rightarrow> (column \<times> uuid) list \<Rightarrow> rls_row" where
  "sample_row i cols = (map_of cols)(Col_id := Some i)"

definition sample_db :: database where
  "sample_db =
     (\<lambda>t. [])
     (UserProfiles := [sample_row ''u1'' [], sample_row ''u2'' []],
      Projects := [sample_row ''j1'' [(Col_user_id, ''u1'')], sample_row ''j2'' [(Col_user_id, ''u2'')]],
      Tasks :=
        [sample_row ''k1'' [(Col_user_id, ''u1''), (Col_project_id, ''j2'')],
         sample_row ''k2'' [(Col_user_id, ''u2''), (Col_project_id, ''j1'')],
         sample_row ''k3'' [(Col_user_id, ''u2''), (Col_project_id, ''j2''), (Col_assigned_to, ''u1'')]],
      LiveManualLog := [sample_row ''l1'' [(Col_user_id, ''u1'')]],
      Templates := [sample_row ''m1'' [(Col_uploaded_by, ''u1'')],
                    sample_row ''m2'' [(Col_uploaded_by, ''u2'')]])"

section \<open>The policies that the migrations leave\<close>

lemma final_policies_eq:
  "final_policies =
   [ \<lparr>pol_name = ''Users can manage own profile'', pol_table = UserProfiles, pol_cmd = ForAll,
       pol_using = Some (UidEq Col_id), pol_check = Some (UidEq Col_id)\<rparr>,
     \<lparr>pol_name = ''Users can manage own live logs'', pol_table = LiveLog, pol_cmd = ForAll,
       pol_using = Some own, pol_check = Some own\<rparr>,
     \<lparr>pol_name = ''Users can manage own projects'', pol_table = Projek, pol_cmd = ForAll,
       pol_using = Some own, pol_check = Some own\<rparr>,
     \<lparr>pol_name = ''Users can manage own tasks'', pol_table = Tugasan, pol_cmd = ForAll,
       pol_using = Some (SqlOr (UidEq Col_user_id) (UidEq Col_ditugaskan_kepada)),
       pol_check = Some (SqlOr (UidEq Col_user_id) (UidEq Col_ditugaskan_kepada))\<rparr>,
     \<lparr>pol_name = ''Users can manage own calendar notes'', pol_table = NotaKalendar,
       pol_cmd = ForAll, pol_using = Some own, pol_check = Some own\<rparr>,
     \<lparr>pol_name = ''Users can read own activity logs'', pol_table = AktivitiLog,
       pol_cmd = ForSelect, pol_using = Some own, pol_check = None\<rparr>,
     \<lparr>pol_name = ''Users can insert own activity logs'', pol_table = AktivitiLog,
       pol_cmd = ForInsert, pol_using = None, pol_check = Some own\<rparr>,
     \<lparr>pol_name = ''Users can manage own projects'', pol_table = Projects, pol_cmd = ForAll,
       pol_using = Some own_or_admin, pol_check = Some own_or_admin\<rparr>,
     \<lparr>pol_name = ''Users can manage own tasks'', pol_table = Tasks, pol_cmd = ForAll,
       pol_using = Some own_or_assigned_or_admin, pol_check = Some own_or_assigned_or_admin\<rparr>,
     \<lparr>pol_name = ''Users can manage own calendar notes'', pol_table = CalendarNotes,
       pol_cmd = ForAll, pol_using = Some own_or_admin, pol_check = Some own_or_admin\<rparr>,
     \<lparr>pol_name = ''Users can manage own content logs'', pol_table = ContentLog, pol_cmd = ForAll,
       pol_using = Some own_or_admin, pol_check = Some own_or_admin\<rparr>,
     \<lparr>pol_name = ''Users can manage own live manual logs'', pol_table = LiveManualLog,
       pol_cmd = ForAll, pol_using = Some own_or_admin, pol_check = Some own_or_admin\<rparr>,
     \<lparr>pol_name = ''Users can read all templates'', pol_table = Templates, pol_cmd = ForSelect,
       pol_using = Some SqlTrue, pol_check = None\<rparr>,
     \<lparr>pol_name = ''Users can manage own templates'', pol_table = Templates, pol_cmd = ForAll,
       pol_using = Some (SqlOr (UidEq Col_uploaded_by) AdminExists),
       pol_check = Some (SqlOr (UidEq Col_uploaded_by) AdminExists)\<rparr>,
     \<lparr>pol_name = ''Users can read own activity logs'', pol_table = ActivityLog,
       pol_cmd = ForSelect, pol_using = Some own_or_admin, pol_check = None\<rparr>,
     \<lparr>pol_name = ''Users can insert own activity logs'', pol_table = ActivityLog,
       pol_cmd = ForInsert, pol_using = None, pol_check = Some own\<rparr> ]"
  unfolding final_policies_def by code_simp

lemma sql_or_true: "sql_or a b = Some True \<longleftrightarrow> a = Some True \<or> b = Some True"
  by (cases "(a, b)" rule: sql_or.cases) auto

lemma passes_UidEq: "passes ps uid r (Some (UidEq c)) \<longleftrightarrow> r c = Some uid"
  by (auto simp: passes_def split: option.splits)

lemma passes_own: "passes ps uid r (Some own) \<longleftrightarrow> r Col_user_id = Some uid"
  by (auto simp: passes_def own_def split: option.splits)

lemma passes_own_or_admin:
  "passes ps uid r (Some own_or_admin) \<longleftrightarrow> r Col_user_id = Some uid \<or> is_admin ps uid"
  by (auto simp: passes_def own_or_admin_def sql_or_true split: option.splits)

lemma passes_own_or_assigned_or_admin:
  "passes ps uid r (Some own_or_assigned_or_admin) \<longleftrightarrow>
     r Col_user_id = Some uid \<or> r Col_assigned_to = Some uid \<or> is_admin ps uid"
  by (auto simp: passes_def own_or_assigned_or_admin_def sql_or_true split: option.splits)

lemma passes_uploader_or_admin:
  "passes ps uid r (Some (SqlOr (UidEq Col_uploaded_by) AdminExists)) \<longleftrightarrow>
     r Col_uploaded_by = Some uid \<or> is_admin ps uid"
  by (auto simp: passes_def sql_or_true split: option.splits)

lemma passes_true: "passes ps uid r (Some SqlTrue)"
  by (simp add: passes_def)

lemma passes_None: "\<not> passes ps uid r None"
  by (simp add: passes_def)

lemmas passes_simps = passes_UidEq passes_own passes_own_or_admin
  passes_own_or_assigned_or_admin passes_uploader_or_admin passes_true passes_None

lemmas rls_defs = row_visible_def row_checked_def table_policies_def final_policies_eq check_qual_def

lemma can_read_owned:
  "t \<in> {Projects, CalendarNotes, ContentLog, LiveManualLog, ActivityLog} \<Longrightarrow>
   can_read ps uid t r \<longleftrightarrow> r Col_user_id = Some uid \<or> is_admin ps uid"
  by (auto simp: can_read_def rls_defs passes_simps)

lemma can_read_tasks:
  "can_read ps uid Tasks r \<longleftrightarrow>
     r Col_user_id = Some uid \<or> r Col_assigned_to = Some uid \<or> is_admin ps uid"
  by (simp add: can_read_def rls_defs passes_simps)

lemma can_read_templates: "can_read ps uid Templates r"
  by (simp add: can_read_def rls_defs passes_simps)

lemma activity_insert: "can_insert ps uid ActivityLog r \<longleftrightarrow> r Col_user_id = Some uid"
  by (simp add: can_insert_def rls_defs passes_simps)

lemma activity_no_update: "\<not> can_update ps uid ActivityLog old new"
  by (simp add: can_update_def rls_defs)

lemma activity_no_delete: "\<not> can_delete ps uid ActivityLog r"
  by (simp add: can_delete_def rls_defs)

section \<open>Who may read a row\<close>

text \<open>
  C1. For \<^verbatim>\<open>projects\<close>, \<^verbatim>\<open>calendar_notes\<close>, \<^verbatim>\<open>content_log\<close>, \<^verbatim>\<open>live_manual_log\<close> and
  \<^verbatim>\<open>activity_log\<close>, a principal may read a row exactly when it is the row's owner or
  has the admin role; for \<^verbatim>\<open>tasks\<close>, exactly when it is the owner, the assignee or an
  admin; a row of \<^verbatim>\<open>templates\<close> may be read by every authenticated principal.
\<close>

theorem can_read_iff:
  "(t \<in> {Projects, CalendarNotes, ContentLog, LiveManualLog, ActivityLog} \<longrightarrow>
      (can_read ps p t r \<longleftrightarrow> r Col_user_id = Some p \<or> is_admin ps p))
   \<and> (can_read ps p Tasks r \<longleftrightarrow>
        r Col_user_id = Some p \<or> r Col_assigned_to = Some p \<or> is_admin ps p)
   \<and> can_read ps p Templates r"
  using can_read_owned [of t ps p r] can_read_tasks [of ps p r] can_read_templates [of ps p r]
  by blast

theorem can_read_iff_witness:
  "Projects \<in> {Projects, CalendarNotes, ContentLog, LiveManualLog, ActivityLog}
   \<and> can_read [''a'' \<mapsto> \<lparr>nama = ''A'', role = Admin\<rparr>] ''a'' Projects
        ((\<lambda>c. None)(Col_user_id := Some ''b''))
   \<and> can_read [''a'' \<mapsto> \<lparr>nama = ''A'', role = Admin\<rparr>] ''a'' Tasks
        ((\<lambda>c. None)(Col_user_id := Some ''b''))
   \<and> can_read [''a'' \<mapsto> \<lparr>nama = ''A'', role = Admin\<rparr>] ''a'' Templates
        ((\<lambda>c. None)(Col_user_id := Some ''b''))"
  using can_read_iff [of Projects "[''a'' \<mapsto> \<lparr>nama = ''A'', role = Admin\<rparr>]" "''a''"
      "(\<lambda>c. None)(Col_user_id := Some ''b'')"]
  by (simp add: is_admin_def)

section \<open>The activity log is append-only\<close>

text \<open>
  C9. On \<^verbatim>\<open>activity_log\<close> a principal may insert a row exactly when the row's
  \<^verbatim>\<open>user_id\<close> is the principal, may read a row exactly when it owns the row or has
  the admin role, and may update or delete no row.
\<close>

theorem activity_log_append_only:
  "(can_insert ps p ActivityLog new \<longleftrightarrow> new Col_user_id = Some p)
   \<and> (can_read ps p ActivityLog r \<longleftrightarrow> r Col_user_id = Some p \<or> is_admin ps p)
   \<and> \<not> can_update ps p ActivityLog r new
   \<and> \<not> can_delete ps p ActivityLog r"
  using activity_insert [of ps p new] can_read_owned [of ActivityLog ps p r]
    activity_no_update [of ps p r new] activity_no_delete [of ps p r]
  by simp

theorem activity_log_append_only_witness:
  "can_insert Map.empty ''u'' ActivityLog ((\<lambda>c. None)(Col_user_id := Some ''u''))
   \<and> \<not> can_insert [''a'' \<mapsto> \<lparr>nama = ''A'', role = Admin\<rparr>] ''a'' ActivityLog
          ((\<lambda>c. None)(Col_user_id := Some ''u''))
   \<and> can_read [''a'' \<mapsto> \<lparr>nama = ''A'', role = Admin\<rparr>] ''a'' ActivityLog
        ((\<lambda>c. None)(Col_user_id := Some ''u''))
   \<and> \<not> can_delete [''a'' \<mapsto> \<lparr>nama = ''A'', role = Admin\<rparr>] ''a'' ActivityLog
          ((\<lambda>c. None)(Col_user_id := Some ''a''))"
  using activity_log_append_only [of Map.empty "''u''" "(\<lambda>c. None)(Col_user_id := Some ''u'')"
      "(\<lambda>c. None)(Col_user_id := Some ''u'')"]
    activity_log_append_only [of "[''a'' \<mapsto> \<lparr>nama = ''A'', role = Admin\<rparr>]" "''a''"
      "(\<lambda>c. None)(Col_user_id := Some ''u'')" "(\<lambda>c. None)(Col_user_id := Some ''u'')"]
    activity_log_append_only [of "[''a'' \<mapsto> \<lparr>nama = ''A'', role = Admin\<rparr>]" "''a''"
      "(\<lambda>c. None)(Col_user_id := Some ''a'')" "(\<lambda>c. None)(Col_user_id := Some ''a'')"]
  by (simp add: is_admin_def)

section \<open>Handlers and the store: shared facts\<close>

lemma settle_store:
  "out_store (settle st req ok err res) = (case res of Inl e \<Rightarrow> st | Inr st' \<Rightarrow> st')"
  by (simp add: settle_def split: sum.splits)

lemma settle_writes: "out_writes (settle st req ok err res) = [req]"
  by (simp add: settle_def split: sum.splits)

lemma update_rows_shape:
  "update_rows target wcheck cons f rows = Inr rows' \<Longrightarrow>
   rows' = map (\<lambda>r. if target r then f r else r) rows \<and> list_all cons (map f (filter target rows))"
  by (auto simp: update_rows_def Let_def split: if_splits)

lemmas eval_defs = visible_def checked_def rls_defs passes_simps is_admin_def
  update_rows_def insert_row_def settle_def returns_def store_date_def Let_def

lemma own_profile_visible: "visible ps (Some i) UserProfiles c (profile_row j) \<longleftrightarrow> i = j"
  by (auto simp: visible_def rls_defs passes_simps profile_row_def)

lemma own_profile_checked: "checked ps (Some i) UserProfiles c (profile_row j) \<longleftrightarrow> i = j"
  by (auto simp: checked_def rls_defs passes_simps profile_row_def)

lemma no_session_visible: "\<not> visible ps None t c r"
  by (simp add: visible_def)

lemma profiles_select_own: "profiles_select ps (Some i) i = Inr (ps i)"
  by (simp add: profiles_select_def own_profile_visible split: option.splits)

lemma profiles_insert_own:
  "profiles_insert ps (Some i) i p =
     (if ps i = None then Inr (ps(i \<mapsto> p))
      else Inl ''duplicate key value violates unique constraint'')"
  by (simp add: profiles_insert_def own_profile_checked)

lemma profiles_update_other: "sess \<noteq> Some i \<Longrightarrow> profiles_update ps sess i f = Inr ps"
  by (cases sess) (auto simp: profiles_update_def own_profile_visible no_session_visible
      split: option.splits)

lemma profiles_update_own:
  "profiles_update ps (Some i) i f = Inr (case ps i of None \<Rightarrow> ps | Some p \<Rightarrow> ps(i \<mapsto> f p))"
  by (simp add: profiles_update_def own_profile_visible own_profile_checked split: option.splits)

lemma handleRoleChange_store:
  "out_store (handleRoleChange profile user confirmed userId newRole ps) = ps"
proof (cases "Some userId = map_option au_id user")
  case True
  then show ?thesis by (simp add: handleRoleChange_def returns_def)
next
  case False
  then have "profiles_update ps (map_option au_id user) userId (\<lambda>p. p\<lparr>role := newRole\<rparr>) = Inr ps"
    by (intro profiles_update_other) auto
  then show ?thesis by (simp add: handleRoleChange_def returns_def settle_store)
qed

text \<open>
  The policy on \<^verbatim>\<open>user_profiles\<close> compares the key only: a principal may rewrite
  its own row whatever the columns written, and no other row. The two restrictions
  on a role change are the client's.
\<close>

lemma profile_update_policy:
  "can_update ps p UserProfiles (profile_row i) (profile_row i) \<longleftrightarrow> i = p"
  by (auto simp: can_update_def rls_defs passes_simps profile_row_def)

section \<open>Role changes\<close>

text \<open>
  C2. A role change asked by a principal whose profile is not an admin's, or asked
  for the principal's own id, shows an error message, sends no write and leaves the
  profile store as it is. A write is sent only when the requester's profile is an
  admin's and the target is another principal; it is sent then, once the dialog is
  confirmed.
\<close>

theorem handleRoleChange_guard:
  "(map_option cp_role profile \<noteq> Some Admin \<or> Some userId = map_option au_id user \<longrightarrow>
      (\<exists>msg. out_toasts (handleRoleChange profile user confirmed userId newRole ps) = [ToastError msg])
      \<and> out_writes (handleRoleChange profile user confirmed userId newRole ps) = []
      \<and> out_store (handleRoleChange profile user confirmed userId newRole ps) = ps)
   \<and> (out_writes (handleRoleChange profile user confirmed userId newRole ps) \<noteq> [] \<longrightarrow>
        map_option cp_role profile = Some Admin \<and> Some userId \<noteq> map_option au_id user)
   \<and> (map_option cp_role profile = Some Admin \<and> Some userId \<noteq> map_option au_id user \<and> confirmed \<longrightarrow>
        out_writes (handleRoleChange profile user confirmed userId newRole ps)
          = [Request Update UserProfiles])"
  by (auto simp: handleRoleChange_def returns_def settle_writes)

theorem handleRoleChange_guard_witness:
  "(let admin = Some \<lparr>cp_id = ''a'', cp_nama = ''A'', cp_role = Admin\<rparr>;
        me = Some \<lparr>au_id = ''a'', au_email = None\<rparr>;
        ps = [''a'' \<mapsto> \<lparr>nama = ''A'', role = Admin\<rparr>, ''b'' \<mapsto> \<lparr>nama = ''B'', role = User\<rparr>]
    in out_writes (handleRoleChange admin me True ''a'' User ps) = []
       \<and> out_store (handleRoleChange admin me True ''a'' User ps) = ps
       \<and> out_writes (handleRoleChange admin me True ''b'' Admin ps) = [Request Update UserProfiles])"
  using handleRoleChange_guard [of "Some \<lparr>cp_id = ''a'', cp_nama = ''A'', cp_role = Admin\<rparr>" "''a''"
      "Some \<lparr>au_id = ''a'', au_email = None\<rparr>" True User
      "[''a'' \<mapsto> \<lparr>nama = ''A'', role = Admin\<rparr>, ''b'' \<mapsto> \<lparr>nama = ''B'', role = User\<rparr>]"]
    handleRoleChange_guard [of "Some \<lparr>cp_id = ''a'', cp_nama = ''A'', cp_role = Admin\<rparr>" "''b''"
      "Some \<lparr>au_id = ''a'', au_email = None\<rparr>" True Admin
      "[''a'' \<mapsto> \<lparr>nama = ''A'', role = Admin\<rparr>, ''b'' \<mapsto> \<lparr>nama = ''B'', role = User\<rparr>]"]
  by (simp add: Let_def)

section \<open>Realtime subscriptions of the views\<close>

lemma view_subscription_eq:
  "view_subscription table profile (Some u) =
     Some \<lparr>sub_channel = ''realtime-'' @ table, sub_event = ''*'', sub_schema = ''public'',
           sub_table = table, sub_filter = ''user_id=eq.'' @ au_id u\<rparr>"
  by (simp add: view_subscription_def useRealTimeSync_def view_filter_def)

lemma view_subscription_delivers:
  "view_subscription table profile (Some u) = Some sub \<Longrightarrow>
   delivers sub ev \<longleftrightarrow> ev_table ev = table \<and> ev_user_id ev = Some (au_id u)"
  unfolding view_subscription_eq by (auto simp: delivers_def)

text \<open>
  C3. The subscription of a view is filtered to the rows of the signed-in user, for
  an admin as for any other user: the view passes no filter for an admin, and the
  hook then falls back to the filter on the user's own id. An admin whose id is \<open>a\<close>
  is not sent the change of a project that \<open>b\<close> owns.
\<close>

theorem admin_subscription_filtered:
  "view_subscription ''projects'' (Some \<lparr>cp_id = ''a'', cp_nama = ''A'', cp_role = Admin\<rparr>)
      (Some \<lparr>au_id = ''a'', au_email = None\<rparr>)
     = Some \<lparr>sub_channel = ''realtime-projects'', sub_event = ''*'', sub_schema = ''public'',
             sub_table = ''projects'', sub_filter = ''user_id=eq.a''\<rparr>
   \<and> \<not> delivers \<lparr>sub_channel = ''realtime-projects'', sub_event = ''*'', sub_schema = ''public'',
             sub_table = ''projects'', sub_filter = ''user_id=eq.a''\<rparr>
          \<lparr>ev_table = ''projects'', ev_user_id = Some ''b''\<rparr>"
  by (simp add: view_subscription_def useRealTimeSync_def view_filter_def delivers_def)

section \<open>Progress and status of a task\<close>

lemma task_row_patch [simp]:
  "task_row (t\<lparr>task_progress := p, task_status := s\<rparr>) = task_row t"
  by (simp add: task_row_def)

lemma tasks_visible_checked:
  "checked ps sess Tasks Update r = visible ps sess Tasks Update r"
  by (simp add: checked_def visible_def rls_defs split: option.splits)

lemma newStatus_cases:
  "0 \<le> p \<Longrightarrow> p \<le> 100 \<Longrightarrow>
   newStatus p = (if p = 0 then NotStarted else if p < 100 then Ongoing else Completed)"
  by (simp add: newStatus_def)

lemma tasks_update_progress:
  assumes "0 \<le> p" "p \<le> 100"
  shows "tasks_update ps sess tid (\<lambda>t. t\<lparr>task_progress := p, task_status := newStatus p\<rparr>) ts =
    Inr (map (\<lambda>t. if task_id t = tid \<and> visible ps sess Tasks Update (task_row t)
                  then t\<lparr>task_progress := p, task_status := newStatus p\<rparr> else t) ts)"
  using assms
  by (simp add: tasks_update_def update_rows_def Let_def list_all_iff task_constraints_def
      tasks_visible_checked)

text \<open>
  C4. For a progress \<open>p\<close> from 0 to 100, \<^verbatim>\<open>updateProgress(taskId, p)\<close> computes the
  status Not Started for 0, Ongoing for a value strictly between 0 and 100 and
  Completed for 100, and writes it together with \<open>progress = p\<close> into the task of that
  id (when the policies let the principal update it); the status is a function of \<open>p\<close>.
\<close>

theorem updateProgress_writes:
  assumes "0 \<le> p" and "p \<le> 100"
  shows "newStatus p = (if p = 0 then NotStarted else if p < 100 then Ongoing else Completed)
    \<and> updateProgress ps sess taskId p ts =
        \<lparr>out_store =
           map (\<lambda>t. if task_id t = taskId \<and> visible ps sess Tasks Update (task_row t)
                    then t\<lparr>task_progress := p, task_status := newStatus p\<rparr> else t) ts,
         out_toasts = [ToastSuccess ''Kemajuan tugasan dikemaskini''],
         out_writes = [Request Update Tasks]\<rparr>"
proof (intro conjI)
  show "newStatus p = (if p = 0 then NotStarted else if p < 100 then Ongoing else Completed)"
    using assms by (rule newStatus_cases)
  show "updateProgress ps sess taskId p ts =
        \<lparr>out_store =
           map (\<lambda>t. if task_id t = taskId \<and> visible ps sess Tasks Update (task_row t)
                    then t\<lparr>task_progress := p, task_status := newStatus p\<rparr> else t) ts,
         out_toasts = [ToastSuccess ''Kemajuan tugasan dikemaskini''],
         out_writes = [Request Update Tasks]\<rparr>"
    by (simp add: updateProgress_def settle_def tasks_update_progress [OF assms])
qed

theorem updateProgress_writes_witness:
  "(0::int) \<le> 75 \<and> (75::int) \<le> 100 \<and> newStatus 75 = Ongoing \<and> newStatus 0 = NotStarted
   \<and> newStatus 100 = Completed
   \<and> out_store (updateProgress sample_profiles (Some ''u1'') ''t1'' 75 [sample_task])
       = [sample_task\<lparr>task_progress := 75, task_status := Ongoing\<rparr>]
   \<and> out_store (updateProgress sample_profiles (Some ''u2'') ''t1'' 75 [sample_task])
       = [sample_task]"
  using updateProgress_writes [of 75 sample_profiles "Some ''u1''" "''t1''" "[sample_task]"]
    updateProgress_writes [of 75 sample_profiles "Some ''u2''" "''t1''" "[sample_task]"]
    updateProgress_writes [of 0] updateProgress_writes [of 100]
  by (simp add: sample_profiles_def sample_task_def task_row_def visible_def rls_defs
      passes_simps is_admin_def)

lemma tasks_row_policy:
  "visible ps sess Tasks Update r \<longleftrightarrow>
     (\<exists>uid. sess = Some uid \<and> (r Col_user_id = Some uid \<or> r Col_assigned_to = Some uid \<or> is_admin ps uid))"
  by (auto simp: visible_def rls_defs passes_simps split: option.splits)

lemma task_row_form_patch:
  "visible ps sess Tasks Update (task_row (form_patch f d t)) = visible ps sess Tasks Update (task_row t)"
  by (simp add: tasks_row_policy task_row_def form_patch_def)

lemma form_patch_progress: "task_progress (form_patch f d t) = tf_progress f"
  by (simp add: form_patch_def)

lemma tasks_update_form_eq:
  "tasks_update_form projects ps sess tid f d ts =
     (if text_ok (tf_title f) \<and> int4 (tf_progress f)
         \<and> list_all (\<lambda>t. 0 \<le> tf_progress f \<and> tf_progress f \<le> 100
                          \<and> (form_project_id f = task_project_id t
                              \<or> refers (form_project_id f) (is_project projects)))
              (filter (\<lambda>t. task_id t = tid \<and> visible ps sess Tasks Update (task_row t)) ts)
      then Inr (map (\<lambda>t. if task_id t = tid \<and> visible ps sess Tasks Update (task_row t)
                         then form_patch f d t else t) ts)
      else Inl (if \<not> text_ok (tf_title f) then ''unsupported Unicode escape sequence''
                else if \<not> int4 (tf_progress f) then ''value out of range for type integer''
                else if \<not> list_all (\<lambda>t. form_project_id f = task_project_id t
                                \<or> refers (form_project_id f) (is_project projects))
                      (filter (\<lambda>t. task_id t = tid \<and> visible ps sess Tasks Update (task_row t)) ts)
                then ''insert or update on table violates foreign key constraint''
                else ''new row violates check constraint''))"
  by (auto simp: tasks_update_form_def tasks_update_def update_rows_def Let_def list_all_iff
      task_constraints_def tasks_visible_checked task_row_form_patch form_patch_progress)

lemma updateProgress_store:
  "out_store (updateProgress ps sess taskId p ts) =
     map (\<lambda>t. if task_id t = taskId \<and> visible ps sess Tasks Update (task_row t) \<and> 0 \<le> p \<and> p \<le> 100
              then t\<lparr>task_progress := p, task_status := newStatus p\<rparr> else t) ts"
proof (cases "0 \<le> p \<and> p \<le> 100")
  case True
  then show ?thesis
    by (simp add: updateProgress_def settle_store tasks_update_progress)
next
  case False
  have "map (\<lambda>t. if task_id t = taskId \<and> visible ps sess Tasks Update (task_row t)
              then t\<lparr>task_progress := p, task_status := newStatus p\<rparr> else t) ts = ts"
    if "list_all task_constraints (map (\<lambda>t. t\<lparr>task_progress := p, task_status := newStatus p\<rparr>)
          (filter (\<lambda>t. task_id t = taskId \<and> visible ps sess Tasks Update (task_row t)) ts))"
    using that False by (intro map_idI) (auto simp: list_all_iff task_constraints_def)
  with False show ?thesis
    by (auto simp: updateProgress_def settle_store tasks_update_def update_rows_def Let_def
        split: sum.splits if_splits intro!: map_idI [symmetric])
qed

lemma tasks_handleSubmit_edit:
  "tasks_handleSubmit projects ps (Some u) (Some e) f nid ts =
     (case tf_due_date f of
        None \<Rightarrow>
          \<lparr>out_store = ts, out_toasts = [ToastError ''Ralat semasa menyimpan tugasan''],
           out_writes = [Request Update Tasks]\<rparr>
      | Some d \<Rightarrow>
          if date_ok d \<and> text_ok (tf_title f) \<and> int4 (tf_progress f)
             \<and> list_all (\<lambda>t. 0 \<le> tf_progress f \<and> tf_progress f \<le> 100
                              \<and> (form_project_id f = task_project_id t
                                  \<or> refers (form_project_id f) (is_project projects)))
                  (filter (\<lambda>t. task_id t = task_id e
                                \<and> visible ps (Some (au_id u)) Tasks Update (task_row t)) ts)
          then \<lparr>out_store =
                  map (\<lambda>t. if task_id t = task_id e
                              \<and> visible ps (Some (au_id u)) Tasks Update (task_row t)
                           then form_patch f d t else t) ts,
                out_toasts = [ToastSuccess ''Tugasan berjaya dikemaskini''],
                out_writes = [Request Update Tasks]\<rparr>
          else \<lparr>out_store = ts, out_toasts = [ToastError ''Ralat semasa menyimpan tugasan''],
                out_writes = [Request Update Tasks]\<rparr>)"
  by (simp add: tasks_handleSubmit_def store_date_def settle_def tasks_update_form_eq
      split: option.splits)

lemma form_patch_invariant:
  "spec_task_invariant (form_patch f d t) \<longleftrightarrow>
     (if tf_progress f = 100 then tf_status f = Completed
      else if tf_progress f = 0 then tf_status f = NotStarted else tf_status f = Ongoing)"
  by (simp add: spec_task_invariant_def form_patch_def)

lemma newStatus_invariant:
  "0 \<le> p \<Longrightarrow> p \<le> 100 \<Longrightarrow> spec_task_invariant (t\<lparr>task_progress := p, task_status := newStatus p\<rparr>)"
  by (simp add: spec_task_invariant_def newStatus_def)

text \<open>
  C5, as the claim states it, fails: the edit form sends the status and the progress
  of the form as they are. A task at progress 50 and Ongoing, edited to progress 0
  with the status Completed, is stored so.
\<close>

theorem edit_form_breaks_invariant:
  "spec_task_invariant sample_task \<and>
   out_toasts (tasks_handleSubmit [] sample_profiles (Some \<lparr>au_id = ''u1'', au_email = None\<rparr>)
      (Some sample_task) sample_form ''t2'' [sample_task])
     = [ToastSuccess ''Tugasan berjaya dikemaskini''] \<and>
   \<not> list_all spec_task_invariant
      (out_store (tasks_handleSubmit [] sample_profiles (Some \<lparr>au_id = ''u1'', au_email = None\<rparr>)
         (Some sample_task) sample_form ''t2'' [sample_task]))"
  by (simp add: sample_task_def sample_form_def sample_profiles_def spec_task_invariant_def
      tasks_handleSubmit_def tasks_update_form_def tasks_update_def task_row_def
      task_constraints_def form_patch_def form_project_id_def text_ok_def int4_def date_ok_def
      refers_def eval_defs)

text \<open>
  C5, amended. \<^verbatim>\<open>updateProgress\<close> rewrites the task of the given id, where the policies
  let the principal update it, to the progress \<open>p\<close> and the status computed from \<open>p\<close>
  when \<open>p\<close> is from 0 to 100, and changes nothing otherwise; the row it writes
  satisfies the invariant. The edit form, submitted by a signed-in user, writes the
  title, project, due date, status and progress of the form into the task being
  edited, where the policies let the user update it, when the store takes the values
  (a due date and a title it can hold, a progress from 0 to 100, a project that exists
  or is unchanged), and changes nothing otherwise. The status written is the
  one of the form, not one computed from the progress: the row written satisfies the
  invariant exactly when the submitted pair does.
\<close>

theorem task_updates_and_invariant:
  "out_store (updateProgress ps sess taskId p ts) =
       map (\<lambda>t. if task_id t = taskId \<and> visible ps sess Tasks Update (task_row t)
                    \<and> 0 \<le> p \<and> p \<le> 100
                then t\<lparr>task_progress := p, task_status := newStatus p\<rparr> else t) ts
    \<and> (0 \<le> p \<and> p \<le> 100 \<longrightarrow>
         spec_task_invariant (t\<lparr>task_progress := p, task_status := newStatus p\<rparr>))
    \<and> tasks_handleSubmit projects ps (Some u) (Some e) f nid ts =
        (case tf_due_date f of
           None \<Rightarrow>
             \<lparr>out_store = ts, out_toasts = [ToastError ''Ralat semasa menyimpan tugasan''],
              out_writes = [Request Update Tasks]\<rparr>
         | Some d \<Rightarrow>
             (if date_ok d \<and> text_ok (tf_title f) \<and> int4 (tf_progress f)
                 \<and> list_all (\<lambda>t. 0 \<le> tf_progress f \<and> tf_progress f \<le> 100
                                  \<and> (form_project_id f = task_project_id t
                                      \<or> refers (form_project_id f) (is_project projects)))
                      (filter (\<lambda>t. task_id t = task_id e
                                    \<and> visible ps (Some (au_id u)) Tasks Update (task_row t)) ts)
              then \<lparr>out_store =
                      map (\<lambda>t. if task_id t = task_id e
                                  \<and> visible ps (Some (au_id u)) Tasks Update (task_row t)
                               then t\<lparr>task_title := tf_title f, task_project_id := form_project_id f,
                                      task_due_date := Some d, task_status := tf_status f,
                                      task_progress := tf_progress f\<rparr>
                               else t) ts,
                    out_toasts = [ToastSuccess ''Tugasan berjaya dikemaskini''],
                    out_writes = [Request Update Tasks]\<rparr>
              else \<lparr>out_store = ts, out_toasts = [ToastError ''Ralat semasa menyimpan tugasan''],
                    out_writes = [Request Update Tasks]\<rparr>))
    \<and> (spec_task_invariant
          (t\<lparr>task_title := tf_title f, task_project_id := form_project_id f,
             task_due_date := Some d, task_status := tf_status f, task_progress := tf_progress f\<rparr>)
        \<longleftrightarrow> (if tf_progress f = 100 then tf_status f = Completed
             else if tf_progress f = 0 then tf_status f = NotStarted
             else tf_status f = Ongoing))"
proof (intro conjI)
  show "out_store (updateProgress ps sess taskId p ts) =
       map (\<lambda>t. if task_id t = taskId \<and> visible ps sess Tasks Update (task_row t)
                    \<and> 0 \<le> p \<and> p \<le> 100
                then t\<lparr>task_progress := p, task_status := newStatus p\<rparr> else t) ts"
    by (rule updateProgress_store)
  show "0 \<le> p \<and> p \<le> 100 \<longrightarrow>
         spec_task_invariant (t\<lparr>task_progress := p, task_status := newStatus p\<rparr>)"
    by (simp add: newStatus_invariant)
  show "tasks_handleSubmit projects ps (Some u) (Some e) f nid ts =
        (case tf_due_date f of
           None \<Rightarrow>
             \<lparr>out_store = ts, out_toasts = [ToastError ''Ralat semasa menyimpan tugasan''],
              out_writes = [Request Update Tasks]\<rparr>
         | Some d \<Rightarrow>
             (if date_ok d \<and> text_ok (tf_title f) \<and> int4 (tf_progress f)
                 \<and> list_all (\<lambda>t. 0 \<le> tf_progress f \<and> tf_progress f \<le> 100
                                  \<and> (form_project_id f = task_project_id t
                                      \<or> refers (form_project_id f) (is_project projects)))
                      (filter (\<lambda>t. task_id t = task_id e
                                    \<and> visible ps (Some (au_id u)) Tasks Update (task_row t)) ts)
              then \<lparr>out_store =
                      map (\<lambda>t. if task_id t = task_id e
                                  \<and> visible ps (Some (au_id u)) Tasks Update (task_row t)
                               then t\<lparr>task_title := tf_title f, task_project_id := form_project_id f,
                                      task_due_date := Some d, task_status := tf_status f,
                                      task_progress := tf_progress f\<rparr>
                               else t) ts,
                    out_toasts = [ToastSuccess ''Tugasan berjaya dikemaskini''],
                    out_writes = [Request Update Tasks]\<rparr>
              else \<lparr>out_store = ts, out_toasts = [ToastError ''Ralat semasa menyimpan tugasan''],
                    out_writes = [Request Update Tasks]\<rparr>))"
    by (simp add: tasks_handleSubmit_edit form_patch_def split: option.splits)
  show "spec_task_invariant
          (t\<lparr>task_title := tf_title f, task_project_id := form_project_id f,
             task_due_date := Some d, task_status := tf_status f, task_progress := tf_progress f\<rparr>)
        \<longleftrightarrow> (if tf_progress f = 100 then tf_status f = Completed
             else if tf_progress f = 0 then tf_status f = NotStarted
             else tf_status f = Ongoing)"
    using form_patch_invariant [of f d t] by (simp add: form_patch_def)
qed

theorem task_updates_and_invariant_witness:
  "tf_due_date sample_form = Some 20270
   \<and> out_store (updateProgress sample_profiles (Some ''u1'') ''t1'' 100 [sample_task])
       = [sample_task\<lparr>task_progress := 100, task_status := Completed\<rparr>]
   \<and> out_store (updateProgress sample_profiles (Some ''u1'') ''t1'' 101 [sample_task])
       = [sample_task]
   \<and> spec_task_invariant (sample_task\<lparr>task_progress := 100, task_status := Completed\<rparr>)
   \<and> tasks_handleSubmit [] sample_profiles (Some \<lparr>au_id = ''u1'', au_email = None\<rparr>)
        (Some sample_task) sample_form ''t2'' [sample_task]
      = \<lparr>out_store = [sample_task\<lparr>task_status := Completed, task_progress := 0\<rparr>],
         out_toasts = [ToastSuccess ''Tugasan berjaya dikemaskini''],
         out_writes = [Request Update Tasks]\<rparr>
   \<and> tasks_handleSubmit [] sample_profiles (Some \<lparr>au_id = ''u2'', au_email = None\<rparr>)
        (Some sample_task) sample_form ''t2'' [sample_task]
      = \<lparr>out_store = [sample_task],
         out_toasts = [ToastSuccess ''Tugasan berjaya dikemaskini''],
         out_writes = [Request Update Tasks]\<rparr>
   \<and> \<not> spec_task_invariant (sample_task\<lparr>task_status := Completed, task_progress := 0\<rparr>)"
proof -
  have d: "tf_due_date sample_form = Some 20270"
    by (simp add: sample_form_def)
  have v: "visible sample_profiles (Some ''u1'') Tasks Update (task_row sample_task)"
    "\<not> visible sample_profiles (Some ''u2'') Tasks Update (task_row sample_task)"
    by (simp_all add: tasks_row_policy task_row_def sample_task_def sample_profiles_def is_admin_def)
  note inst = task_updates_and_invariant [where ps = sample_profiles and ts = "[sample_task]"
      and taskId = "''t1''" and sess = "Some ''u1''" and e = sample_task and projects = "[]"
      and t = sample_task and nid = "''t2''" and f = sample_form and d = 20270]
  show ?thesis
    using inst [where p = 100 and u = "\<lparr>au_id = ''u1'', au_email = None\<rparr>"]
      inst [where p = 101 and u = "\<lparr>au_id = ''u2'', au_email = None\<rparr>"] v
    by (simp add: d newStatus_def)
       (simp add: sample_task_def sample_form_def form_project_id_def text_ok_def int4_def
          date_ok_def)
qed

section \<open>Deleting a profile\<close>

lemma fk_sel:
  "fk_table (fk t c r a) = t" "fk_column (fk t c r a) = c"
  "fk_ref (fk t c r a) = r" "fk_on_delete (fk t c r a) = a"
  by (simp_all add: fk_def)

lemma set_null_fk:
  "set_null ids (fk t c r a) db =
     db(t := map (\<lambda>x. if has_key_in c ids x then x(c := None) else x) (db t))"
  by (simp add: set_null_def fk_def cong: if_cong)

lemmas dp_defs = delete_profile_def eval_nat_numeral foreign_keys_def Let_def fk_sel set_null_fk

lemma has_key_in_set: "set ids = set ids' \<Longrightarrow> has_key_in c ids = has_key_in c ids'"
  by (auto simp: has_key_in_def fun_eq_iff split: option.splits)

lemma gone_profile:
  assumes "\<exists>r\<in>set rows. r Col_id = Some p"
  shows "set (List.map_filter (\<lambda>r. r Col_id) (filter (has_key_in Col_id [p]) rows)) = {p}"
  using assms by (force simp: List.map_filter_def has_key_in_def split: option.splits)

lemma has_key_in_gone:
  assumes "\<exists>r\<in>set rows. r Col_id = Some p"
  shows "has_key_in c (List.map_filter (\<lambda>r. r Col_id) (filter (has_key_in Col_id [p]) rows))
         = (\<lambda>r. r c = Some p)"
proof -
  have "has_key_in c (List.map_filter (\<lambda>r. r Col_id) (filter (has_key_in Col_id [p]) rows))
        = has_key_in c [p]"
    by (rule has_key_in_set) (simp add: gone_profile [OF assms])
  then show ?thesis by (auto simp: has_key_in_def fun_eq_iff split: option.splits)
qed

lemma delete_profile_result:
  assumes "\<exists>r\<in>set (db UserProfiles). r Col_id = Some p"
  shows "\<exists>db'. delete_profile p db = Some db'
     \<and> db' Projects = filter (\<lambda>r. r Col_user_id \<noteq> Some p) (db Projects)
     \<and> db' CalendarNotes = filter (\<lambda>r. r Col_user_id \<noteq> Some p) (db CalendarNotes)
     \<and> db' ContentLog = filter (\<lambda>r. r Col_user_id \<noteq> Some p) (db ContentLog)
     \<and> db' LiveManualLog = filter (\<lambda>r. r Col_user_id \<noteq> Some p) (db LiveManualLog)
     \<and> db' Tasks =
         filter (\<lambda>r. \<not> has_key_in Col_project_id
                       (List.map_filter (\<lambda>r. r Col_id)
                          (filter (\<lambda>r. r Col_user_id = Some p) (db Projects))) r
                    \<and> r Col_user_id \<noteq> Some p)
           (map (\<lambda>r. if r Col_assigned_to = Some p then r(Col_assigned_to := None) else r)
              (db Tasks))
     \<and> db' Templates =
         map (\<lambda>r. if r Col_uploaded_by = Some p then r(Col_uploaded_by := None) else r) (db Templates)"
  by (simp add: dp_defs has_key_in_gone [OF assms])

text \<open>
  C6. Deleting a profile that exists removes every row of \<^verbatim>\<open>projects\<close>,
  \<^verbatim>\<open>calendar_notes\<close>, \<^verbatim>\<open>content_log\<close> and \<^verbatim>\<open>live_manual_log\<close> that the profile owns
  and keeps the others; of \<^verbatim>\<open>tasks\<close> it removes the rows that the profile owns and
  the rows of the removed projects; every row of \<^verbatim>\<open>templates\<close> is kept, with
  \<^verbatim>\<open>uploaded_by\<close> set to NULL where it was the profile.
\<close>

theorem delete_profile_cascade:
  assumes "\<exists>r\<in>set (db UserProfiles). r Col_id = Some p"
  shows "\<exists>db'. delete_profile p db = Some db'
     \<and> (\<forall>t\<in>{Projects, CalendarNotes, ContentLog, LiveManualLog}.
           db' t = filter (\<lambda>r. r Col_user_id \<noteq> Some p) (db t))
     \<and> db' Tasks =
         filter (\<lambda>r. \<not> has_key_in Col_project_id
                       (List.map_filter (\<lambda>r. r Col_id)
                          (filter (\<lambda>r. r Col_user_id = Some p) (db Projects))) r
                    \<and> r Col_user_id \<noteq> Some p)
           (map (\<lambda>r. if r Col_assigned_to = Some p then r(Col_assigned_to := None) else r)
              (db Tasks))
     \<and> (\<forall>r\<in>set (db' Tasks). r Col_user_id \<noteq> Some p)
     \<and> db' Templates =
         map (\<lambda>r. if r Col_uploaded_by = Some p then r(Col_uploaded_by := None) else r) (db Templates)"
proof -
  from delete_profile_result [of db p, OF assms] obtain db' where r: "delete_profile p db = Some db'"
    "db' Projects = filter (\<lambda>r. r Col_user_id \<noteq> Some p) (db Projects)"
    "db' CalendarNotes = filter (\<lambda>r. r Col_user_id \<noteq> Some p) (db CalendarNotes)"
    "db' ContentLog = filter (\<lambda>r. r Col_user_id \<noteq> Some p) (db ContentLog)"
    "db' LiveManualLog = filter (\<lambda>r. r Col_user_id \<noteq> Some p) (db LiveManualLog)"
    "db' Tasks =
         filter (\<lambda>r. \<not> has_key_in Col_project_id
                       (List.map_filter (\<lambda>r. r Col_id)
                          (filter (\<lambda>r. r Col_user_id = Some p) (db Projects))) r
                    \<and> r Col_user_id \<noteq> Some p)
           (map (\<lambda>r. if r Col_assigned_to = Some p then r(Col_assigned_to := None) else r)
              (db Tasks))"
    "db' Templates =
         map (\<lambda>r. if r Col_uploaded_by = Some p then r(Col_uploaded_by := None) else r) (db Templates)"
    by blast
  have tk: "\<forall>r\<in>set (db' Tasks). r Col_user_id \<noteq> Some p"
    unfolding r(6) by simp
  have own: "\<forall>t\<in>{Projects, CalendarNotes, ContentLog, LiveManualLog}.
           db' t = filter (\<lambda>r. r Col_user_id \<noteq> Some p) (db t)"
    using r(2-5) by simp
  from r(1) own r(6) tk r(7) show ?thesis
    by (intro exI [of _ db'] conjI)
qed

theorem delete_profile_cascade_witness:
  "(\<exists>r\<in>set (sample_db UserProfiles). r Col_id = Some ''u1'')
   \<and> (\<exists>db'. delete_profile ''u1'' sample_db = Some db'
        \<and> map (\<lambda>r. r Col_id) (db' Projects) = [Some ''j2'']
        \<and> db' LiveManualLog = []
        \<and> map (\<lambda>r. (r Col_id, r Col_assigned_to)) (db' Tasks) = [(Some ''k3'', None)]
        \<and> map (\<lambda>r. (r Col_id, r Col_uploaded_by)) (db' Templates)
            = [(Some ''m1'', None), (Some ''m2'', Some ''u2'')])"
proof -
  have h: "\<exists>r\<in>set (sample_db UserProfiles). r Col_id = Some ''u1''"
    by (simp add: sample_db_def sample_row_def)
  have ids: "List.map_filter (\<lambda>r. r Col_id)
      (filter (\<lambda>r. r Col_user_id = Some ''u1'') (sample_db Projects)) = [''j1'']"
    by (simp add: sample_db_def sample_row_def)
  from delete_profile_cascade [of sample_db "''u1''", OF h] obtain db' where
    d: "delete_profile ''u1'' sample_db = Some db'"
    and own: "\<forall>t\<in>{Projects, CalendarNotes, ContentLog, LiveManualLog}.
           db' t = filter (\<lambda>r. r Col_user_id \<noteq> Some ''u1'') (sample_db t)"
    and tasks: "db' Tasks =
         filter (\<lambda>r. \<not> has_key_in Col_project_id [''j1''] r \<and> r Col_user_id \<noteq> Some ''u1'')
           (map (\<lambda>r. if r Col_assigned_to = Some ''u1'' then r(Col_assigned_to := None) else r)
              (sample_db Tasks))"
    and templates: "db' Templates =
         map (\<lambda>r. if r Col_uploaded_by = Some ''u1'' then r(Col_uploaded_by := None) else r)
           (sample_db Templates)"
    unfolding ids by (elim exE conjE)
  from own have op: "db' Projects = filter (\<lambda>r. r Col_user_id \<noteq> Some ''u1'') (sample_db Projects)"
    and ol: "db' LiveManualLog = filter (\<lambda>r. r Col_user_id \<noteq> Some ''u1'') (sample_db LiveManualLog)"
    by simp_all
  have p: "map (\<lambda>r. r Col_id) (db' Projects) = [Some ''j2'']"
    unfolding op by (simp add: sample_db_def sample_row_def)
  have l: "db' LiveManualLog = []"
    unfolding ol by (simp add: sample_db_def sample_row_def)
  have t: "map (\<lambda>r. (r Col_id, r Col_assigned_to)) (db' Tasks) = [(Some ''k3'', None)]"
    unfolding tasks by (simp add: sample_db_def sample_row_def has_key_in_def)
  have m: "map (\<lambda>r. (r Col_id, r Col_uploaded_by)) (db' Templates)
            = [(Some ''m1'', None), (Some ''m2'', Some ''u2'')]"
    unfolding templates by (simp add: sample_db_def sample_row_def)
  from d p l t m have "\<exists>db'. delete_profile ''u1'' sample_db = Some db'
        \<and> map (\<lambda>r. r Col_id) (db' Projects) = [Some ''j2'']
        \<and> db' LiveManualLog = []
        \<and> map (\<lambda>r. (r Col_id, r Col_assigned_to)) (db' Tasks) = [(Some ''k3'', None)]
        \<and> map (\<lambda>r. (r Col_id, r Col_uploaded_by)) (db' Templates)
            = [(Some ''m1'', None), (Some ''m2'', Some ''u2'')]"
    by (intro exI [of _ db'] conjI)
  with h show ?thesis by (rule conjI)
qed

section \<open>Live logs of one day\<close>

subsection \<open>Rounding to a double\<close>

lemma halvings_le: "0 \<le> x \<Longrightarrow> x < 2 ^ Suc k \<Longrightarrow> halvings n x \<le> k"
proof (induction n arbitrary: x k)
  case 0
  then show ?case by simp
next
  case (Suc n)
  show ?case
  proof (cases "2 \<le> x")
    case False
    then show ?thesis by simp
  next
    case True
    with Suc.prems obtain j where k: "k = Suc j"
      by (cases k) auto
    have "halvings n (x / 2) \<le> j"
      using Suc.prems True unfolding k by (intro Suc.IH) auto
    with True show ?thesis by (simp add: k)
  qed
qed

lemma exponent_le: "\<bar>x\<bar> < 2 ^ Suc k \<Longrightarrow> exponent x \<le> int k"
  using halvings_le [of "\<bar>x\<bar>" k 1024] by (auto simp: exponent_def)

lemma round_half_even_error: "\<bar>of_int (round_half_even q) - q\<bar> \<le> 1 / 2"
proof -
  have "of_int \<lfloor>q\<rfloor> \<le> q" "q < of_int \<lfloor>q\<rfloor> + 1"
    by linarith+
  then show ?thesis
    by (auto simp: round_half_even_def Let_def)
qed

text \<open>
  Below \<open>2 ^ (k + 1)\<close> the doubles are at most \<open>2 ^ (k - 52)\<close> apart, so that rounding
  moves a value by at most half of that, and does not overflow.
\<close>

lemma to_double_error:
  assumes "\<bar>x\<bar> < 2 ^ Suc k" and "k \<le> 1000"
  shows "\<exists>y. to_double x = Num y \<and> \<bar>y - x\<bar> \<le> 2 powi (int k - 53)"
proof -
  define u :: rat where "u = 2 powi (exponent x - 52)"
  define y where "y = of_int (round_half_even (x / u)) * u"
  have u0: "0 < u" by (simp add: u_def)
  have "u \<le> 2 powi (int k - 52)"
    unfolding u_def using exponent_le [OF assms(1)] by (intro power_int_increasing) auto
  moreover have "(2::rat) powi (int k - 52) = 2 * 2 powi (int k - 53)"
    using power_int_add [of "2::rat" 1 "int k - 53"] by simp
  ultimately have u: "1 / 2 * u \<le> 2 powi (int k - 53)" by simp
  have "y - x = (of_int (round_half_even (x / u)) - x / u) * u"
    using u0 by (simp add: y_def algebra_simps)
  then have "\<bar>y - x\<bar> = \<bar>of_int (round_half_even (x / u)) - x / u\<bar> * u"
    using u0 by (simp add: abs_mult)
  also have "\<dots> \<le> 1 / 2 * u"
    using u0 round_half_even_error [of "x / u"] by (intro mult_right_mono) auto
  finally have err: "\<bar>y - x\<bar> \<le> 2 powi (int k - 53)" using u by simp
  have "(2::rat) powi (int k - 53) \<le> 2 powi 1000"
    using assms(2) by (intro power_int_increasing) auto
  moreover have "(2::rat) ^ Suc k \<le> 2 ^ 1001"
    using assms(2) by (intro power_increasing) auto
  ultimately have "\<bar>y\<bar> < 2 ^ 1001 + 2 powi 1000"
    using err assms(1) by linarith
  also have "\<dots> \<le> 2 ^ 1024"
    by simp
  finally have "\<not> 2 ^ 1024 \<le> \<bar>y\<bar>" by simp
  then have "to_double x = Num y"
    by (simp add: to_double_def Let_def y_def u_def)
  with err show ?thesis by blast
qed

text \<open>Rounding keeps the sign: a decimal that reads as a number above 0 is above 0.\<close>

lemma round_half_even_nonpos: "q \<le> 0 \<Longrightarrow> round_half_even q \<le> 0"
proof -
  assume q: "q \<le> 0"
  have f: "\<lfloor>q\<rfloor> \<le> 0" using q by (simp add: floor_le_zero)
  show ?thesis
  proof (cases "\<lfloor>q\<rfloor> = 0")
    case True
    then have "0 \<le> q" by (metis of_int_0 of_int_floor_le)
    with q have "q = 0" by simp
    then show ?thesis by (simp add: round_half_even_def)
  next
    case False
    with f have "\<lfloor>q\<rfloor> + 1 \<le> 0" by linarith
    with f show ?thesis by (auto simp: round_half_even_def Let_def)
  qed
qed

lemma to_double_positive: "to_double q = Num x \<Longrightarrow> 0 < x \<Longrightarrow> 0 < q"
proof (rule ccontr)
  assume r: "to_double q = Num x" and x: "0 < x" and "\<not> 0 < q"
  then have q: "q \<le> 0" by simp
  define u :: rat where "u = 2 powi (exponent q - 52)"
  have u0: "0 < u" by (simp add: u_def)
  then have "q / u \<le> 0" using q by (simp add: divide_le_0_iff)
  then have "round_half_even (q / u) \<le> 0" by (rule round_half_even_nonpos)
  then have "of_int (round_half_even (q / u)) * u \<le> 0"
    using u0 by (simp add: mult_le_0_iff)
  with r x show False
    by (auto simp: to_double_def Let_def u_def split: if_splits)
qed

lemma to_double_error_26:
  assumes "\<bar>x\<bar> < 67108864"
  shows "\<exists>y. to_double x = Num y \<and> \<bar>y - x\<bar> \<le> 1 / 268435456"
proof -
  have "\<bar>x\<bar> < 2 ^ Suc 25" using assms by simp
  from to_double_error [OF this]
  obtain y where "to_double x = Num y" "\<bar>y - x\<bar> \<le> 2 powi (int 25 - 53)" by auto
  moreover have "(2::rat) powi (int 25 - 53) = 1 / 268435456"
    by (simp add: power_int_minus field_simps)
  ultimately show ?thesis by auto
qed

lemma to_double_error_33:
  assumes "\<bar>x\<bar> < 8589934592"
  shows "\<exists>y. to_double x = Num y \<and> \<bar>y - x\<bar> \<le> 1 / 2097152"
proof -
  have "\<bar>x\<bar> < 2 ^ Suc 32" using assms by simp
  from to_double_error [OF this]
  obtain y where "to_double x = Num y" "\<bar>y - x\<bar> \<le> 2 powi (int 32 - 53)" by auto
  moreover have "(2::rat) powi (int 32 - 53) = 1 / 2097152"
    by (simp add: power_int_minus field_simps)
  ultimately show ?thesis by auto
qed

text \<open>
  The sum that \<^verbatim>\<open>reduce\<close> computes in doubles: for at most 100000 decimals, none
  negative, of a sum up to ten million, it is a finite number within
  \<open>n / 2 ^ 27\<close> of the exact sum of the \<open>n\<close> decimals.
\<close>

lemma sum_error:
  assumes "\<forall>h\<in>set hs. 0 \<le> h" and "length hs \<le> 100000" and "sum_list hs \<le> 10000000"
  shows "\<exists>s. foldl num_add (Num 0) (map to_double hs) = Num s
           \<and> \<bar>s - sum_list hs\<bar> \<le> of_nat (length hs) / 134217728"
  using assms
proof (induction hs rule: rev_induct)
  case Nil
  then show ?case by simp
next
  case (snoc x xs)
  have x0: "0 \<le> x" and xs0: "\<forall>h\<in>set xs. 0 \<le> h"
    using snoc.prems(1) by auto
  have sxs0: "0 \<le> sum_list xs"
    using xs0 by (intro sum_list_nonneg) auto
  have len: "length xs \<le> 100000" "of_nat (length xs) \<le> (99999::rat)"
    using snoc.prems(2) by auto
  have sum: "sum_list xs + x \<le> 10000000"
    using snoc.prems(3) by simp
  with x0 have "sum_list xs \<le> 10000000" by simp
  from snoc.IH [OF xs0 len(1) this]
  obtain s where s: "foldl num_add (Num 0) (map to_double xs) = Num s"
    and es: "\<bar>s - sum_list xs\<bar> \<le> of_nat (length xs) / 134217728"
    by auto
  have small: "of_nat (length xs) / (134217728::rat) \<le> 1 / 1000"
    using len(2) by simp
  have "\<bar>x\<bar> < 67108864"
    using x0 sxs0 sum by simp
  from to_double_error_26 [OF this]
  obtain d where d: "to_double x = Num d" and ed: "\<bar>d - x\<bar> \<le> 1 / 268435456"
    by auto
  have "\<bar>s + d\<bar> < 67108864"
    using es ed small x0 sxs0 sum by linarith
  from to_double_error_26 [OF this]
  obtain s' where s': "to_double (s + d) = Num s'" and es': "\<bar>s' - (s + d)\<bar> \<le> 1 / 268435456"
    by auto
  have "foldl num_add (Num 0) (map to_double (xs @ [x])) = Num s'"
    by (simp add: s d s')
  moreover have "of_nat (length (xs @ [x])) / (134217728::rat)
      = of_nat (length xs) / 134217728 + 1 / 134217728"
    by (simp add: add_divide_distrib)
  moreover have "\<bar>s' - (sum_list xs + x)\<bar> \<le> of_nat (length xs) / 134217728 + 1 / 134217728"
    using es ed es' by linarith
  ultimately show ?case by simp
qed

lemma sum_list_hundredths:
  "\<forall>h\<in>set hs. h * 100 \<in> \<int> \<Longrightarrow> sum_list hs * 100 \<in> \<int>"
  by (induction hs) (auto simp: algebra_simps)

text \<open>
  Multiplied by 100 and rounded to an integer, the sum in doubles is 100 times the
  exact sum when the decimals have two places at most; the division by 100 then
  gives the double nearest to the exact sum.
\<close>

lemma rounded_total:
  assumes "\<forall>h\<in>set hs. 0 \<le> h \<and> h * 100 \<in> \<int>"
    and "length hs \<le> 100000" and "sum_list hs \<le> 10000000"
  shows "div_100 (math_round (times_100 (foldl num_add (Num 0) (map to_double hs))))
         = to_double (sum_list hs)"
proof -
  have h0: "\<forall>h\<in>set hs. 0 \<le> h" and hz: "\<forall>h\<in>set hs. h * 100 \<in> \<int>"
    using assms(1) by auto
  from sum_error [OF h0 assms(2,3)]
  obtain s where s: "foldl num_add (Num 0) (map to_double hs) = Num s"
    and es: "\<bar>s - sum_list hs\<bar> \<le> of_nat (length hs) / 134217728"
    by auto
  have n: "of_nat (length hs) / (134217728::rat) \<le> 1 / 1000"
    using assms(2) by simp
  have s0: "0 \<le> sum_list hs"
    using h0 by (intro sum_list_nonneg) auto
  have "\<bar>s * 100\<bar> < 8589934592"
    using es n s0 assms(3) by linarith
  from to_double_error_33 [OF this]
  obtain p where p: "to_double (s * 100) = Num p" and ep: "\<bar>p - s * 100\<bar> \<le> 1 / 2097152"
    by auto
  from sum_list_hundredths [OF hz] obtain m :: int where m: "sum_list hs * 100 = of_int m"
    by (auto elim: Ints_cases)
  have "of_int m \<le> p + 1 / 2" "p + 1 / 2 < of_int m + 1"
    using es n ep unfolding m [symmetric] by linarith+
  then have "\<lfloor>p + 1 / 2\<rfloor> = m"
    by (intro floor_unique) auto
  moreover have "of_int m / 100 = sum_list hs"
    using m by simp
  ultimately show ?thesis
    by (simp add: s p)
qed

subsection \<open>The figures of the live host page\<close>

lemma foldl_fetched:
  "foldl (\<lambda>total log. num_add total (lml_total_hours log)) a (map fetched rs)
   = foldl num_add a (map to_double (map lml_total_hours rs))"
  by (induction rs arbitrary: a) (simp_all add: fetched_def)

lemma getTotalHours_sum:
  assumes "\<forall>r\<in>set rs. 0 \<le> lml_total_hours r \<and> lml_total_hours r * 100 \<in> \<int>"
    and "length rs \<le> 100000" and "(\<Sum>r\<leftarrow>rs. lml_total_hours r) \<le> 10000000"
  shows "getTotalHours (map fetched rs) = to_double (\<Sum>r\<leftarrow>rs. lml_total_hours r)"
  unfolding getTotalHours_def foldl_fetched
  using assms by (intro rounded_total) auto

lemma sum_list_filter_le:
  "\<forall>r\<in>set rs. (0::rat) \<le> f r \<Longrightarrow> (\<Sum>r\<leftarrow>filter P rs. f r) \<le> (\<Sum>r\<leftarrow>rs. f r)"
  by (induction rs) (auto intro: add_increasing)

lemma filter_fetched:
  "filter (\<lambda>log. w \<le> date_ms (lml_live_date log)) (map fetched rs)
   = map fetched (filter (\<lambda>r. w \<le> date_ms (lml_live_date r)) rs)"
  by (induction rs) (simp_all add: fetched_def)

lemma getThisWeekHours_sum:
  assumes "\<forall>r\<in>set rs. 0 \<le> lml_total_hours r \<and> lml_total_hours r * 100 \<in> \<int>"
    and "length rs \<le> 100000" and "(\<Sum>r\<leftarrow>rs. lml_total_hours r) \<le> 10000000"
  shows "getThisWeekHours w (map fetched rs)
    = to_double (\<Sum>r\<leftarrow>filter (\<lambda>r. w \<le> date_ms (lml_live_date r)) rs. lml_total_hours r)"
proof -
  let ?rs = "filter (\<lambda>r. w \<le> date_ms (lml_live_date r)) rs"
  have "length ?rs \<le> 100000"
    using assms(2) length_filter_le [of "\<lambda>r. w \<le> date_ms (lml_live_date r)" rs] by linarith
  moreover have "(\<Sum>r\<leftarrow>?rs. lml_total_hours r) \<le> 10000000"
    using assms(1,3) sum_list_filter_le [of rs lml_total_hours "\<lambda>r. w \<le> date_ms (lml_live_date r)"]
    by auto
  moreover have "\<forall>r\<in>set ?rs. 0 \<le> lml_total_hours r \<and> lml_total_hours r * 100 \<in> \<int>"
    using assms(1) by auto
  ultimately have "getTotalHours (map fetched ?rs) = to_double (\<Sum>r\<leftarrow>?rs. lml_total_hours r)"
    by (intro getTotalHours_sum) auto
  then show ?thesis
    by (simp add: getThisWeekHours_def getTotalHours_def filter_fetched)
qed

subsection \<open>Adding a live log\<close>

lemma live_insert_eq:
  "live_insert ps (Some uid)
     \<lparr>lml_id = nid, lml_user_id = Some uid, lml_host_name = n, lml_live_date = d,
      lml_total_hours = h\<rparr> rows
   = (if 0 \<le> h \<and> utf16_ok n \<and> ps uid \<noteq> None \<and> nid \<notin> lml_id ` set rows
      then Inr (rows @ [\<lparr>lml_id = nid, lml_user_id = Some uid, lml_host_name = n,
                         lml_live_date = d, lml_total_hours = h\<rparr>])
      else Inl (if \<not> (0 \<le> h \<and> utf16_ok n) then ''new row violates check constraint''
                else if ps uid = None
                then ''insert or update on table violates foreign key constraint''
                else ''duplicate key value violates unique constraint''))"
  by (simp add: live_insert_def insert_row_def checked_def rls_defs passes_simps live_row_def
      refers_def has_profile_def)

lemma live_handleSubmit_insert:
  assumes "lf_live_date f = Some d" and "lf_total_hours f = Num x"
  shows "live_handleSubmit digits ps (Some u) None f nid rows =
        (if trim (lf_host_name f) = []
         then \<lparr>out_store = rows, out_toasts = [ToastError ''Nama host tidak boleh kosong''],
               out_writes = []\<rparr>
         else if x \<le> 0
         then \<lparr>out_store = rows, out_toasts = [ToastError ''Jumlah jam mestilah lebih dari 0''],
               out_writes = []\<rparr>
         else if date_ok d \<and> 0 \<le> digits x \<and> utf16_ok (trim (lf_host_name f))
              \<and> ps (au_id u) \<noteq> None \<and> nid \<notin> lml_id ` set rows
         then \<lparr>out_store =
                 rows @ [\<lparr>lml_id = nid, lml_user_id = Some (au_id u),
                          lml_host_name = trim (lf_host_name f), lml_live_date = d,
                          lml_total_hours = digits x\<rparr>],
               out_toasts = [ToastSuccess ''Log live berjaya ditambah''],
               out_writes = [Request Insert LiveManualLog]\<rparr>
         else \<lparr>out_store = rows, out_toasts = [ToastError ''Ralat semasa menyimpan log live''],
               out_writes = [Request Insert LiveManualLog]\<rparr>)"
  using assms
  by (simp add: live_handleSubmit_def store_date_def settle_def returns_def live_insert_eq)

text \<open>
  Two values of the model beside those of the client: a row of 1.005 hours gives the
  total 1 (the product by 100 is the double below 100.5), and a name of white space
  other than that of ASCII is blank.
\<close>

lemma total_of_1005:
  "getTotalHours (map fetched [sample_live\<lparr>lml_total_hours := 1005 / 1000\<rparr>]) = Num 1"
  by code_simp

lemma trim_nbsp: "trim [160, 32, 12288] = []"
  by (simp add: trim_def is_white_space_def)

text \<open>
  C7. A submission that is not an edit, by a signed-in user, is refused by the client
  when the name is blank or the hours are not above 0, and is sent to the store as an
  insert otherwise, the hours as a decimal that reads back as the number of the form.
  The store appends the row when the date is one it holds, the name is text it takes,
  the user has a profile and the key is new. Nothing in this looks at the rows that
  the table holds, so a second row for the user and the date of an existing row is
  created. For fetched rows whose hours have two decimal places at most (the form
  steps by 0.1), up to 100000 rows and ten million hours in all, the total is the
  number nearest to the exact sum of the hours of all the rows, and the figure of the
  week, for rows dated in years of four digits, the number nearest to the exact sum
  over the rows dated on or after \<open>oneWeekAgo\<close>; a row counts once for each time it
  occurs.
\<close>

theorem live_rows_coexist_and_are_summed:
  "(lf_live_date f = Some d \<and> lf_total_hours f = Num x \<and> to_double (digits x) = Num x \<longrightarrow>
      live_handleSubmit digits ps (Some u) None f nid rows =
        (if trim (lf_host_name f) = []
         then \<lparr>out_store = rows, out_toasts = [ToastError ''Nama host tidak boleh kosong''],
               out_writes = []\<rparr>
         else if x \<le> 0
         then \<lparr>out_store = rows, out_toasts = [ToastError ''Jumlah jam mestilah lebih dari 0''],
               out_writes = []\<rparr>
         else if date_ok d \<and> utf16_ok (trim (lf_host_name f)) \<and> ps (au_id u) \<noteq> None
              \<and> nid \<notin> lml_id ` set rows
         then \<lparr>out_store =
                 rows @ [\<lparr>lml_id = nid, lml_user_id = Some (au_id u),
                          lml_host_name = trim (lf_host_name f), lml_live_date = d,
                          lml_total_hours = digits x\<rparr>],
               out_toasts = [ToastSuccess ''Log live berjaya ditambah''],
               out_writes = [Request Insert LiveManualLog]\<rparr>
         else \<lparr>out_store = rows, out_toasts = [ToastError ''Ralat semasa menyimpan log live''],
               out_writes = [Request Insert LiveManualLog]\<rparr>))
   \<and> ((\<forall>r\<in>set rs. 0 \<le> lml_total_hours r \<and> lml_total_hours r * 100 \<in> \<int>)
        \<and> length rs \<le> 100000 \<and> (\<Sum>r\<leftarrow>rs. lml_total_hours r) \<le> 10000000 \<longrightarrow>
       getTotalHours (map fetched rs) = to_double (\<Sum>r\<leftarrow>rs. lml_total_hours r)
       \<and> ((\<forall>r\<in>set rs. four_digit_year (lml_live_date r)) \<longrightarrow>
            getThisWeekHours oneWeekAgo (map fetched rs)
              = to_double (\<Sum>r\<leftarrow>filter (\<lambda>r. oneWeekAgo \<le> date_ms (lml_live_date r)) rs.
                             lml_total_hours r)))"
proof (intro conjI impI)
  assume a: "lf_live_date f = Some d \<and> lf_total_hours f = Num x \<and> to_double (digits x) = Num x"
  then have "0 < x \<Longrightarrow> 0 \<le> digits x"
    using to_double_positive [of "digits x" x] by simp
  with a show "live_handleSubmit digits ps (Some u) None f nid rows =
        (if trim (lf_host_name f) = []
         then \<lparr>out_store = rows, out_toasts = [ToastError ''Nama host tidak boleh kosong''],
               out_writes = []\<rparr>
         else if x \<le> 0
         then \<lparr>out_store = rows, out_toasts = [ToastError ''Jumlah jam mestilah lebih dari 0''],
               out_writes = []\<rparr>
         else if date_ok d \<and> utf16_ok (trim (lf_host_name f)) \<and> ps (au_id u) \<noteq> None
              \<and> nid \<notin> lml_id ` set rows
         then \<lparr>out_store =
                 rows @ [\<lparr>lml_id = nid, lml_user_id = Some (au_id u),
                          lml_host_name = trim (lf_host_name f), lml_live_date = d,
                          lml_total_hours = digits x\<rparr>],
               out_toasts = [ToastSuccess ''Log live berjaya ditambah''],
               out_writes = [Request Insert LiveManualLog]\<rparr>
         else \<lparr>out_store = rows, out_toasts = [ToastError ''Ralat semasa menyimpan log live''],
               out_writes = [Request Insert LiveManualLog]\<rparr>)"
    using live_handleSubmit_insert [of f d x digits ps u nid rows] by auto
next
  assume "(\<forall>r\<in>set rs. 0 \<le> lml_total_hours r \<and> lml_total_hours r * 100 \<in> \<int>)
        \<and> length rs \<le> 100000 \<and> (\<Sum>r\<leftarrow>rs. lml_total_hours r) \<le> 10000000"
  then show "getTotalHours (map fetched rs) = to_double (\<Sum>r\<leftarrow>rs. lml_total_hours r)"
    using getTotalHours_sum [of rs] by simp
next
  assume "(\<forall>r\<in>set rs. 0 \<le> lml_total_hours r \<and> lml_total_hours r * 100 \<in> \<int>)
        \<and> length rs \<le> 100000 \<and> (\<Sum>r\<leftarrow>rs. lml_total_hours r) \<le> 10000000"
  then show "getThisWeekHours oneWeekAgo (map fetched rs)
              = to_double (\<Sum>r\<leftarrow>filter (\<lambda>r. oneWeekAgo \<le> date_ms (lml_live_date r)) rs.
                             lml_total_hours r)"
    using getThisWeekHours_sum [of rs oneWeekAgo] by simp
qed

theorem live_rows_coexist_and_are_summed_witness:
  "live_handleSubmit (\<lambda>x. x) sample_profiles (Some \<lparr>au_id = ''u1'', au_email = None\<rparr>) None
      sample_live_form ''l2'' [sample_live]
     = \<lparr>out_store = [sample_live, sample_live2],
        out_toasts = [ToastSuccess ''Log live berjaya ditambah''],
        out_writes = [Request Insert LiveManualLog]\<rparr>
   \<and> lml_user_id sample_live = lml_user_id sample_live2
   \<and> lml_live_date sample_live = lml_live_date sample_live2
   \<and> getTotalHours (map fetched [sample_live, sample_live2]) = to_double (7 / 2)
   \<and> getThisWeekHours 1750950000000 (map fetched [sample_live, sample_live2]) = to_double (7 / 2)
   \<and> getThisWeekHours 1751400000000 (map fetched [sample_live, sample_live2]) = to_double 0
   \<and> to_double (7 / 2) = Num (7 / 2)
   \<and> getTotalHours (map fetched [sample_live\<lparr>lml_total_hours := 1 / 10\<rparr>,
                                  sample_live2\<lparr>lml_total_hours := 2 / 10\<rparr>]) = to_double (3 / 10)"
proof -
  have f: "lf_live_date sample_live_form = Some 20270" "lf_total_hours sample_live_form = Num 2"
    by (simp_all add: sample_live_form_def)
  have ok: "date_ok 20270" "utf16_ok [66, 97, 100, 114, 117, 108]"
    "sample_profiles ''u1'' \<noteq> None" "''l2'' \<notin> lml_id ` set [sample_live]"
    by (simp_all add: date_ok_def utf16_ok_def high_surrogate_def low_surrogate_def
        sample_profiles_def sample_live_def)
  have rs: "\<forall>r\<in>set [sample_live, sample_live2]. 0 \<le> lml_total_hours r \<and> lml_total_hours r * 100 \<in> \<int>"
    "\<forall>r\<in>set [sample_live, sample_live2]. four_digit_year (lml_live_date r)"
    by (simp_all add: sample_live_def sample_live2_def four_digit_year_def)
  have v: "to_double (7 / 2) = Num (7 / 2)" "to_double 2 = Num 2"
    by code_simp+
  have t: "trim (lf_host_name sample_live_form) = [66, 97, 100, 114, 117, 108]"
    by (simp add: trim_def sample_live_form_def is_white_space_def)
  have new: "\<lparr>lml_id = ''l2'', lml_user_id = Some ''u1'',
        lml_host_name = [66, 97, 100, 114, 117, 108], lml_live_date = 20270, lml_total_hours = 2\<rparr>
      = sample_live2"
    by (simp add: sample_live2_def)
  have w: "filter (\<lambda>r. 1750950000000 \<le> date_ms (lml_live_date r)) [sample_live, sample_live2]
        = [sample_live, sample_live2]"
    "filter (\<lambda>r. 1751400000000 \<le> date_ms (lml_live_date r)) [sample_live, sample_live2] = []"
    by (simp_all add: sample_live_def sample_live2_def date_ms_def)
  have sum: "(\<Sum>r\<leftarrow>[sample_live, sample_live2]. lml_total_hours r) = 7 / 2"
    "length [sample_live, sample_live2] \<le> 100000"
    by (simp_all add: sample_live_def sample_live2_def)
  have same: "lml_user_id sample_live = lml_user_id sample_live2"
    "lml_live_date sample_live = lml_live_date sample_live2"
    by (simp_all add: sample_live_def sample_live2_def)
  note inst = live_rows_coexist_and_are_summed [where f = sample_live_form and d = 20270 and x = 2
      and digits = "\<lambda>x. x" and ps = sample_profiles and u = "\<lparr>au_id = ''u1'', au_email = None\<rparr>"
      and nid = "''l2''" and rows = "[sample_live]" and rs = "[sample_live, sample_live2]"]
  have a: "live_handleSubmit (\<lambda>x. x) sample_profiles (Some \<lparr>au_id = ''u1'', au_email = None\<rparr>) None
      sample_live_form ''l2'' [sample_live]
     = \<lparr>out_store = [sample_live, sample_live2],
        out_toasts = [ToastSuccess ''Log live berjaya ditambah''],
        out_writes = [Request Insert LiveManualLog]\<rparr>"
    using inst [THEN conjunct1] f ok v(2) by (simp add: t new)
  have b: "getTotalHours (map fetched [sample_live, sample_live2]) = to_double (7 / 2)"
    "getThisWeekHours 1750950000000 (map fetched [sample_live, sample_live2]) = to_double (7 / 2)"
    using inst [where oneWeekAgo = 1750950000000, THEN conjunct2, unfolded w sum(1)] rs sum(2)
    by simp_all
  have c: "getThisWeekHours 1751400000000 (map fetched [sample_live, sample_live2]) = to_double 0"
    using inst [where oneWeekAgo = 1751400000000, THEN conjunct2, unfolded w sum(1)] rs sum(2)
    by simp
  have e: "getTotalHours (map fetched [sample_live\<lparr>lml_total_hours := 1 / 10\<rparr>,
                                  sample_live2\<lparr>lml_total_hours := 2 / 10\<rparr>]) = to_double (3 / 10)"
    using live_rows_coexist_and_are_summed [where rs = "[sample_live\<lparr>lml_total_hours := 1 / 10\<rparr>,
        sample_live2\<lparr>lml_total_hours := 2 / 10\<rparr>]", THEN conjunct2]
    by simp
  show ?thesis
    using a b c e same v(1) by simp
qed

section \<open>One content log per day\<close>

lemma find_date:
  "\<exists>l\<in>set logs. cl_log_date l = d \<Longrightarrow> find (\<lambda>l. Some (cl_log_date l) = Some d) logs \<noteq> None"
  by (auto simp: find_None_iff)

lemma content_insert_eq:
  "content_insert ps (Some uid)
     \<lparr>cl_id = nid, cl_user_id = Some uid, cl_log_date = d, cl_content_count = n\<rparr> rows
   = (if int4 n \<and> ps uid \<noteq> None \<and> nid \<notin> cl_id ` set rows
      then Inr (rows @ [\<lparr>cl_id = nid, cl_user_id = Some uid, cl_log_date = d, cl_content_count = n\<rparr>])
      else Inl (if \<not> int4 n then ''new row violates check constraint''
                else if ps uid = None
                then ''insert or update on table violates foreign key constraint''
                else ''duplicate key value violates unique constraint''))"
  by (simp add: content_insert_def insert_row_def checked_def rls_defs passes_simps content_row_def
      content_constraints_def refers_def has_profile_def)

text \<open>
  C8. When a signed-in user submits a content log that is not an edit and the
  fetched list holds a log of the submitted date, the handler shows an error message
  and returns: no write is sent and the table is unchanged. The block is the
  client's alone: with an empty fetched list the same submission is sent to the
  store, which appends the row beside whatever rows the table holds when the date and
  the count fit their columns, the user has a profile and the key is new, whatever
  the dates of the rows it holds.
\<close>

theorem content_duplicate_date_blocked:
  assumes "user = Some u" and "cf_log_date formData = Some d"
    and "\<exists>l\<in>set logs. cl_log_date l = d"
  shows "content_handleSubmit ps user logs None formData new_id rows =
      \<lparr>out_store = rows,
       out_toasts = [ToastError ''Log untuk tarikh ini sudah wujud. Sila edit log yang sedia ada.''],
       out_writes = []\<rparr>
    \<and> content_handleSubmit ps user [] None formData new_id rows =
        (if date_ok d \<and> int4 (cf_content_count formData) \<and> ps (au_id u) \<noteq> None
            \<and> new_id \<notin> cl_id ` set rows
         then \<lparr>out_store =
                 rows @ [\<lparr>cl_id = new_id, cl_user_id = Some (au_id u), cl_log_date = d,
                          cl_content_count = cf_content_count formData\<rparr>],
               out_toasts = [ToastSuccess ''Log content berjaya ditambah''],
               out_writes = [Request Insert ContentLog]\<rparr>
         else \<lparr>out_store = rows,
               out_toasts = [ToastError ''Ralat semasa menyimpan log content''],
               out_writes = [Request Insert ContentLog]\<rparr>)"
  using assms find_date [OF assms(3)]
  by (simp add: content_handleSubmit_def returns_def Let_def settle_def store_date_def
      content_insert_eq)

theorem content_duplicate_date_blocked_witness:
  "(\<exists>l\<in>set [sample_content]. cl_log_date l = 20270)
   \<and> content_handleSubmit sample_profiles (Some \<lparr>au_id = ''u1'', au_email = None\<rparr>)
        [sample_content] None \<lparr>cf_log_date = Some 20270, cf_content_count = 3\<rparr> ''c2''
        [sample_content]
      = \<lparr>out_store = [sample_content],
         out_toasts = [ToastError ''Log untuk tarikh ini sudah wujud. Sila edit log yang sedia ada.''],
         out_writes = []\<rparr>
   \<and> content_handleSubmit sample_profiles (Some \<lparr>au_id = ''u1'', au_email = None\<rparr>)
        [] None \<lparr>cf_log_date = Some 20270, cf_content_count = 3\<rparr> ''c2'' [sample_content]
      = \<lparr>out_store =
           [sample_content,
            \<lparr>cl_id = ''c2'', cl_user_id = Some ''u1'', cl_log_date = 20270, cl_content_count = 3\<rparr>],
         out_toasts = [ToastSuccess ''Log content berjaya ditambah''],
         out_writes = [Request Insert ContentLog]\<rparr>
   \<and> content_handleSubmit sample_profiles (Some \<lparr>au_id = ''u1'', au_email = None\<rparr>)
        [sample_content] None \<lparr>cf_log_date = Some 20270, cf_content_count = 2147483648\<rparr> ''c2''
        [sample_content]
      = \<lparr>out_store = [sample_content],
         out_toasts = [ToastError ''Log untuk tarikh ini sudah wujud. Sila edit log yang sedia ada.''],
         out_writes = []\<rparr>
   \<and> content_handleSubmit sample_profiles (Some \<lparr>au_id = ''u1'', au_email = None\<rparr>)
        [] None \<lparr>cf_log_date = Some 20270, cf_content_count = 2147483648\<rparr> ''c2'' [sample_content]
      = \<lparr>out_store = [sample_content],
         out_toasts = [ToastError ''Ralat semasa menyimpan log content''],
         out_writes = [Request Insert ContentLog]\<rparr>"
proof -
  have h: "\<exists>l\<in>set [sample_content]. cl_log_date l = 20270"
    by (simp add: sample_content_def)
  have fresh: "''c2'' \<notin> cl_id ` set [sample_content]"
    by (simp add: sample_content_def)
  have p: "sample_profiles ''u1'' \<noteq> None"
    by (simp add: sample_profiles_def)
  note inst = content_duplicate_date_blocked
        [where user = "Some \<lparr>au_id = ''u1'', au_email = None\<rparr>"
           and u = "\<lparr>au_id = ''u1'', au_email = None\<rparr>"
           and d = 20270 and logs = "[sample_content]" and ps = sample_profiles
           and new_id = "''c2''" and rows = "[sample_content]"]
  show ?thesis
    using h fresh p inst [where formData = "\<lparr>cf_log_date = Some 20270, cf_content_count = 3\<rparr>"]
      inst [where formData = "\<lparr>cf_log_date = Some 20270, cf_content_count = 2147483648\<rparr>"]
    by (simp add: int4_def date_ok_def)
qed

section \<open>Profiles created on first sign-in\<close>

lemma fetchProfile_missing:
  "as_profiles st userId = None \<Longrightarrow>
   fetchProfile user userId st =
     \<lparr>out_store =
        \<lparr>as_profiles = (as_profiles st)(userId \<mapsto> \<lparr>nama = default_nama user, role = User\<rparr>),
         as_profile = Some \<lparr>cp_id = userId, cp_nama = default_nama user, cp_role = User\<rparr>\<rparr>,
      out_toasts = [ToastSuccess ''Profil pengguna berjaya dicipta''],
      out_writes = [Request Insert UserProfiles]\<rparr>"
  by (simp add: fetchProfile_def profiles_select_own profiles_insert_own Let_def client_view_def)

lemma fetchProfile_present:
  "as_profiles st userId = Some p \<Longrightarrow>
   fetchProfile user userId st = returns (st\<lparr>as_profile := Some (client_view userId p)\<rparr>) []"
  by (simp add: fetchProfile_def profiles_select_own)

lemma is_admin_upd:
  "is_admin (ps(j \<mapsto> p)) i \<longleftrightarrow> (if i = j then role p = Admin else is_admin ps i)"
  by (simp add: is_admin_def)

lemma fetchProfile_admin:
  "is_admin (as_profiles (out_store (fetchProfile cu userId st))) i \<Longrightarrow> is_admin (as_profiles st) i"
  by (cases "as_profiles st userId")
     (auto simp: fetchProfile_missing fetchProfile_present returns_def is_admin_upd split: if_splits)

text \<open>
  C10, as the claim states it, fails in its last clause. \<^verbatim>\<open>updateProfile\<close> sends the
  columns it is given, and the policy on \<^verbatim>\<open>user_profiles\<close> lets a principal rewrite its
  own row: in a store without an admin, \<open>u1\<close> becomes one by an update of its own
  profile.
\<close>

theorem updateProfile_makes_admin:
  "\<not> is_admin sample_users ''u1'' \<and> \<not> is_admin sample_users ''u2''
   \<and> updateProfile (Some \<lparr>au_id = ''u1'', au_email = None\<rparr>) \<lparr>pu_nama = None, pu_role = Some Admin\<rparr>
        \<lparr>as_profiles = sample_users,
         as_profile = Some \<lparr>cp_id = ''u1'', cp_nama = ''Aina'', cp_role = User\<rparr>\<rparr>
      = \<lparr>out_store =
           \<lparr>as_profiles = sample_users(''u1'' \<mapsto> \<lparr>nama = ''Aina'', role = Admin\<rparr>),
            as_profile = Some \<lparr>cp_id = ''u1'', cp_nama = ''Aina'', cp_role = Admin\<rparr>\<rparr>,
         out_toasts = [ToastSuccess ''Profil berjaya dikemaskini''],
         out_writes = [Request Update UserProfiles, Request Insert ActivityLog]\<rparr>
   \<and> is_admin (sample_users(''u1'' \<mapsto> \<lparr>nama = ''Aina'', role = Admin\<rparr>)) ''u1''"
  by (simp add: updateProfile_def profiles_update_own apply_updates_def apply_updates_client_def
      sample_users_def is_admin_def)

text \<open>
  C10, amended. When the store has no profile for the signed-in principal,
  \<^verbatim>\<open>fetchProfile\<close> inserts one with the role \<open>user\<close> and the client holds it with that
  role; whoever is an admin after the fetch was one before it.
\<close>

theorem lazy_profile_is_user:
  "(as_profiles st userId = None \<longrightarrow>
      as_profiles (out_store (fetchProfile user userId st))
        = (as_profiles st)(userId \<mapsto> \<lparr>nama = default_nama user, role = User\<rparr>)
      \<and> map_option cp_role (as_profile (out_store (fetchProfile user userId st))) = Some User
      \<and> out_writes (fetchProfile user userId st) = [Request Insert UserProfiles])
   \<and> (is_admin (as_profiles (out_store (fetchProfile user userId st))) i
        \<longrightarrow> is_admin (as_profiles st) i)"
  using fetchProfile_missing [of st userId user] fetchProfile_admin [of user userId st i]
  by auto

theorem lazy_profile_is_user_witness:
  "sample_profiles ''u9'' = None
   \<and> as_profiles (out_store (fetchProfile (Some \<lparr>au_id = ''u9'', au_email = Some ''nora@example.com''\<rparr>)
        ''u9'' \<lparr>as_profiles = sample_profiles, as_profile = None\<rparr>))
      = sample_profiles(''u9'' \<mapsto> \<lparr>nama = ''nora'', role = User\<rparr>)
   \<and> out_writes (fetchProfile (Some \<lparr>au_id = ''u9'', au_email = Some ''nora@example.com''\<rparr>)
        ''u9'' \<lparr>as_profiles = sample_profiles, as_profile = None\<rparr>) = [Request Insert UserProfiles]
   \<and> \<not> is_admin (as_profiles (out_store (fetchProfile None ''u1''
          \<lparr>as_profiles = sample_profiles, as_profile = None\<rparr>))) ''u1''"
proof -
  have a: "sample_profiles ''u9'' = None" "\<not> is_admin sample_profiles ''u1''"
    by (simp_all add: sample_profiles_def is_admin_def)
  show ?thesis
    using a lazy_profile_is_user [of "\<lparr>as_profiles = sample_profiles, as_profile = None\<rparr>" "''u9''"
        "Some \<lparr>au_id = ''u9'', au_email = Some ''nora@example.com''\<rparr>" "''u1''"]
      lazy_profile_is_user [of "\<lparr>as_profiles = sample_profiles, as_profile = None\<rparr>" "''u1''"
        None "''u1''"]
    by (simp add: default_nama_def)
qed

end
